theory Spec2Isabelle
  imports Complex_Main "HOL-Library.AList"
begin

section \<open>Python values\<close>

text \<open>
  The program reads Stripe objects as dictionaries and nearly always through
  \<^verbatim>\<open>d.get(key)\<close> or \<^verbatim>\<open>d.get(key, default)\<close>, whose result depends on
  whether the key is missing, holds \<^verbatim>\<open>None\<close>, or holds a value. Every key the
  program reads is therefore a field with these three states; the value, when there
  is one, has the type the Stripe API gives that key (amounts, quantities and
  timestamps are integers).
\<close>

datatype 'a field = Absent | Null | Val 'a

text \<open>The exceptions the modelled code can raise; a raising call returns \<open>Inl\<close>.\<close>

datatype error =
  TypeError | KeyError | AttributeError | OverflowError | ValueError | ZeroDivisionError
  | RecursionError | StripeError

text \<open>The values of the dictionaries the program builds for Infakt.\<close>

datatype pyval =
  PNone | PInt int | PStr string | PList "pyval list" | PDict "(string \<times> pyval) list"

type_synonym pydict = "(string \<times> pyval) list"

text \<open>\<^verbatim>\<open>d.get(key)\<close>: a missing key reads as \<^verbatim>\<open>None\<close>.\<close>

definition dict_get :: "pydict \<Rightarrow> string \<Rightarrow> pyval" where
  "dict_get d k = (case map_of d k of None \<Rightarrow> PNone | Some v \<Rightarrow> v)"

text \<open>\<^verbatim>\<open>{k: v for k, v in d.items() if v is not None}\<close>\<close>

definition strip_none :: "pydict \<Rightarrow> pydict" where
  "strip_none d = filter (\<lambda>kv. snd kv \<noteq> PNone) d"

text \<open>\<^verbatim>\<open>{**d, **e}\<close>: the keys of \<open>e\<close> are stored in order, each replacing the value of
  a key already there and joining at the end otherwise.\<close>

definition dict_merge :: "pydict \<Rightarrow> pydict \<Rightarrow> pydict" where
  "dict_merge d e = fold (\<lambda>kv acc. AList.update (fst kv) (snd kv) acc) e d"

text \<open>Truth values of Python objects, as \<^verbatim>\<open>if x:\<close> reads them.\<close>

fun truthy :: "pyval \<Rightarrow> bool" where
  "truthy PNone = False"
| "truthy (PInt i) = (i \<noteq> 0)"
| "truthy (PStr s) = (s \<noteq> [])"
| "truthy (PList xs) = (xs \<noteq> [])"
| "truthy (PDict d) = (d \<noteq> [])"

definition of_str :: "string option \<Rightarrow> pyval" where
  "of_str s = (case s of None \<Rightarrow> PNone | Some t \<Rightarrow> PStr t)"

definition of_int_opt :: "int option \<Rightarrow> pyval" where
  "of_int_opt i = (case i of None \<Rightarrow> PNone | Some n \<Rightarrow> PInt n)"

text \<open>\<^verbatim>\<open>d.get(key)\<close> on a field: \<open>None\<close> is Python's \<^verbatim>\<open>None\<close>.\<close>

fun get :: "'a field \<Rightarrow> 'a option" where
  "get Absent = None"
| "get Null = None"
| "get (Val x) = Some x"

text \<open>\<^verbatim>\<open>d.get(key, default)\<close>: the default stands in for a missing key only.\<close>

fun get_default :: "'a field \<Rightarrow> 'a \<Rightarrow> 'a option" where
  "get_default Absent d = Some d"
| "get_default Null d = None"
| "get_default (Val x) d = Some x"

subsection \<open>Strings\<close>

text \<open>\<^verbatim>\<open>s.split(' ', 1)\<close>: at most one split, at the first space.\<close>

fun split_first_space :: "string \<Rightarrow> string list" where
  "split_first_space s =
     (if CHR '' '' \<in> set s
      then [takeWhile (\<lambda>c. c \<noteq> CHR '' '') s, tl (dropWhile (\<lambda>c. c \<noteq> CHR '' '') s)]
      else [s])"

text \<open>\<^verbatim>\<open>s.upper()\<close> on ASCII text (currency codes): the letters a to z move to A to Z.\<close>

definition upper_char :: "char \<Rightarrow> char" where
  "upper_char c =
     (case map_of (zip ''abcdefghijklmnopqrstuvwxyz'' ''ABCDEFGHIJKLMNOPQRSTUVWXYZ'') c of
        None \<Rightarrow> c
      | Some u \<Rightarrow> u)"

definition upper :: "string \<Rightarrow> string" where
  "upper s = map upper_char s"

text \<open>Decimal digits, for \<^verbatim>\<open>strftime('%Y-%m-%d')\<close>.\<close>

definition digit :: "int \<Rightarrow> char" where
  "digit n = ''0123456789'' ! nat (n mod 10)"

definition pad2 :: "int \<Rightarrow> string" where
  "pad2 n = [digit (n div 10), digit n]"

subsection \<open>True division of integers and \<^verbatim>\<open>int()\<close>\<close>

text \<open>
  \<^verbatim>\<open>a / b\<close> on two Python integers is the IEEE 754 double nearest to the exact
  quotient (ties to even), \<^verbatim>\<open>ZeroDivisionError\<close> for \<open>b = 0\<close> and
  \<^verbatim>\<open>OverflowError\<close> when the quotient is too large for a double. A finite double is
  \<open>mant * 2 ^ expo\<close> with \<open>\<bar>mant\<bar> \<le> 2 ^ 53\<close> and \<open>expo \<ge> - 1074\<close>.
\<close>

datatype double = Double (mant: int) (expo: int)

fun bit_length :: "nat \<Rightarrow> nat" where
  "bit_length n = (if n = 0 then 0 else Suc (bit_length (n div 2)))"

declare bit_length.simps [simp del]

definition round_half_even :: "int \<Rightarrow> int \<Rightarrow> int" where
  "round_half_even n d =
     (let m = n div d; r = n mod d
      in if d < 2 * r \<or> (2 * r = d \<and> odd m) then m + 1 else m)"

text \<open>The exponent of the quotient: \<open>2 ^ e \<le> p / q < 2 ^ (e + 1)\<close>.\<close>

definition quotient_exponent :: "nat \<Rightarrow> nat \<Rightarrow> int" where
  "quotient_exponent p q =
     (let d = int (bit_length p) - int (bit_length q)
      in if int q * 2 ^ nat d \<le> int p * 2 ^ nat (- d) then d else d - 1)"

definition truediv_pos :: "nat \<Rightarrow> nat \<Rightarrow> error + double" where
  "truediv_pos p q =
     (let e = max (quotient_exponent p q - 52) (- 1074);
          m = round_half_even (int p * 2 ^ nat (- e)) (int q * 2 ^ nat e)
      in if 2 ^ 1024 \<le> m * 2 ^ nat e then Inl OverflowError else Inr (Double m e))"

definition truediv :: "int \<Rightarrow> int \<Rightarrow> error + double" where
  "truediv a b =
     (if b = 0 then Inl ZeroDivisionError
      else if a = 0 then Inr (Double 0 0)
      else case truediv_pos (nat \<bar>a\<bar>) (nat \<bar>b\<bar>) of
             Inl e \<Rightarrow> Inl e
           | Inr x \<Rightarrow> Inr (Double (if (a < 0) = (b < 0) then mant x else - mant x) (expo x)))"

text \<open>\<^verbatim>\<open>int(x)\<close> on a double: the fraction is dropped, towards zero.\<close>

definition int_of_double :: "double \<Rightarrow> int" where
  "int_of_double x =
     (if 0 \<le> expo x then mant x * 2 ^ nat (expo x)
      else sgn (mant x) * (\<bar>mant x\<bar> div 2 ^ nat (- expo x)))"


subsection \<open>Dates\<close>

text \<open>
  The proleptic Gregorian calendar of Python's \<^verbatim>\<open>datetime\<close>: day 1 is 1 January of
  year 1, and years run from 1 to 9999. An aware UTC \<^verbatim>\<open>datetime\<close> is held as its day
  number and its second of the day.
\<close>

definition MINYEAR :: int where "MINYEAR = 1"
definition MAXYEAR :: int where "MAXYEAR = 9999"
definition MAXORDINAL :: int where "MAXORDINAL = 3652059"
definition EPOCH_ORDINAL :: int where "EPOCH_ORDINAL = 719163"

definition is_leap :: "int \<Rightarrow> bool" where
  "is_leap y = (y mod 4 = 0 \<and> (y mod 100 \<noteq> 0 \<or> y mod 400 = 0))"

definition days_before_year :: "int \<Rightarrow> int" where
  "days_before_year year =
     (let y = year - 1 in y * 365 + y div 4 - y div 100 + y div 400)"

definition DAYS_IN_MONTH :: "int list" where
  "DAYS_IN_MONTH = [- 1, 31, 28, 31, 30, 31, 30, 31, 31, 30, 31, 30, 31]"

definition DAYS_BEFORE_MONTH :: "int list" where
  "DAYS_BEFORE_MONTH = [- 1, 0, 31, 59, 90, 120, 151, 181, 212, 243, 273, 304, 334]"

definition days_in_month :: "int \<Rightarrow> int \<Rightarrow> int" where
  "days_in_month year month =
     (if month = 2 \<and> is_leap year then 29 else DAYS_IN_MONTH ! nat month)"

definition days_before_month :: "int \<Rightarrow> int \<Rightarrow> int" where
  "days_before_month year month =
     DAYS_BEFORE_MONTH ! nat month + (if 2 < month \<and> is_leap year then 1 else 0)"

definition ymd2ord :: "int \<Rightarrow> int \<Rightarrow> int \<Rightarrow> int" where
  "ymd2ord year month day = days_before_year year + days_before_month year month + day"

definition ord2ymd :: "int \<Rightarrow> int \<times> int \<times> int" where
  "ord2ymd ordinal =
     (let n = ordinal - 1;
          n400 = n div 146097; n = n mod 146097;
          n100 = n div 36524; n = n mod 36524;
          n4 = n div 1461; n = n mod 1461;
          n1 = n div 365; n = n mod 365;
          year = n400 * 400 + 1 + n100 * 100 + n4 * 4 + n1
      in if n1 = 4 \<or> n100 = 4 then (year - 1, 12, 31)
         else
           let leapyear = (n1 = 3 \<and> (n4 \<noteq> 24 \<or> n100 = 3));
               month = (n + 50) div 32;
               preceding = DAYS_BEFORE_MONTH ! nat month + (if 2 < month \<and> leapyear then 1 else 0)
           in if n < preceding
              then (let month' = month - 1;
                        preceding' = preceding - (DAYS_IN_MONTH ! nat month'
                                       + (if month' = 2 \<and> leapyear then 1 else 0))
                    in (year, month', n - preceding' + 1))
              else (year, month, n - preceding + 1))"

record datetime =
  dt_ordinal :: int
  dt_second :: int

text \<open>\<^verbatim>\<open>datetime(year, month, day, 0, 0, 0, tzinfo=timezone.utc)\<close>\<close>

definition datetime_utc :: "int \<Rightarrow> int \<Rightarrow> int \<Rightarrow> error + datetime" where
  "datetime_utc year month day =
     (if MINYEAR \<le> year \<and> year \<le> MAXYEAR \<and> 1 \<le> month \<and> month \<le> 12
         \<and> 1 \<le> day \<and> day \<le> days_in_month year month
      then Inr \<lparr>dt_ordinal = ymd2ord year month day, dt_second = 0\<rparr>
      else Inl ValueError)"

text \<open>\<^verbatim>\<open>dt - timedelta(seconds=s)\<close>\<close>

definition sub_seconds :: "datetime \<Rightarrow> int \<Rightarrow> error + datetime" where
  "sub_seconds dt s =
     (let total = dt_ordinal dt * 86400 + dt_second dt - s;
          days = total div 86400
      in if 0 < days \<and> days \<le> MAXORDINAL
         then Inr \<lparr>dt_ordinal = days, dt_second = total mod 86400\<rparr>
         else Inl OverflowError)"

text \<open>\<^verbatim>\<open>int(dt.timestamp())\<close>: whole seconds since 1970-01-01T00:00:00Z. The float that
  \<^verbatim>\<open>timestamp()\<close> returns is exact here: its magnitude stays below \<open>2 ^ 39\<close>.\<close>

definition timestamp :: "datetime \<Rightarrow> int" where
  "timestamp dt = (dt_ordinal dt - EPOCH_ORDINAL) * 86400 + dt_second dt"

text \<open>\<^verbatim>\<open>datetime.fromtimestamp(ts, tz=timezone.utc)\<close>: raises outside years 1 to 9999.\<close>

definition fromtimestamp_utc :: "int \<Rightarrow> error + datetime" where
  "fromtimestamp_utc ts =
     (let days = ts div 86400 + EPOCH_ORDINAL
      in if 1 \<le> days \<and> days \<le> MAXORDINAL
         then Inr \<lparr>dt_ordinal = days, dt_second = ts mod 86400\<rparr>
         else Inl ValueError)"

text \<open>\<^verbatim>\<open>dt.strftime('%Y-%m-%d')\<close>. The C library writes \<^verbatim>\<open>%Y\<close> as the decimal
  number of the year, with no leading zeros (the year 999 gives \<^verbatim>\<open>999-12-31\<close>), and the
  month and the day with two digits. A year is between 1 and 9999.\<close>

definition year_digits :: "int \<Rightarrow> string" where
  "year_digits y =
     (if y < 10 then [digit y]
      else if y < 100 then [digit (y div 10), digit y]
      else if y < 1000 then [digit (y div 100), digit (y div 10), digit y]
      else [digit (y div 1000), digit (y div 100), digit (y div 10), digit y])"

definition strftime_ymd :: "datetime \<Rightarrow> string" where
  "strftime_ymd dt =
     (case ord2ymd (dt_ordinal dt) of
        (y, m, d) \<Rightarrow> year_digits y @ ''-'' @ pad2 m @ ''-'' @ pad2 d)"

section \<open>utils.py\<close>

text \<open>\<^verbatim>\<open>get_month_timestamps(year, month)\<close>. The log line is left out.\<close>

definition get_month_timestamps :: "int \<Rightarrow> int \<Rightarrow> error + int \<times> int" where
  "get_month_timestamps year month =
     (case datetime_utc year month 1 of
        Inl e \<Rightarrow> Inl e
      | Inr start_dt \<Rightarrow>
          (case (if month = 12 then datetime_utc (year + 1) 1 1
                 else datetime_utc year (month + 1) 1) of
             Inl e \<Rightarrow> Inl e
           | Inr next_dt \<Rightarrow>
               (case sub_seconds next_dt 1 of
                  Inl e \<Rightarrow> Inl e
                | Inr end_dt \<Rightarrow> Inr (timestamp start_dt, timestamp end_dt))))"

text \<open>\<^verbatim>\<open>timestamp_to_infakt_date(timestamp)\<close>: every exception of the conversion is
  caught and turned into \<^verbatim>\<open>None\<close>.\<close>

definition timestamp_to_infakt_date :: "int option \<Rightarrow> string option" where
  "timestamp_to_infakt_date ts =
     (case ts of
        None \<Rightarrow> None
      | Some t \<Rightarrow>
          (case fromtimestamp_utc t of
             Inl e \<Rightarrow> None
           | Inr dt \<Rightarrow> Some (strftime_ymd dt)))"

text \<open>\<^verbatim>\<open>map_stripe_tax_rate_to_infakt_symbol(percentage)\<close>: the function body ends
  after its only \<^verbatim>\<open>if\<close>, so every other call returns \<^verbatim>\<open>None\<close>.\<close>

definition map_stripe_tax_rate_to_infakt_symbol :: "rat option \<Rightarrow> string option" where
  "map_stripe_tax_rate_to_infakt_symbol percentage =
     (if percentage = None then Some ''zw'' else None)"

text \<open>\<^verbatim>\<open>map_stripe_payment_method(stripe_invoice)\<close> is defined after the invoice
  record below, \<^verbatim>\<open>get_client_details\<close> after the customer record.\<close>

subsection \<open>Stripe objects\<close>

record address =
  line1 :: "string field"
  city :: "string field"
  postal_code :: "string field"
  country :: "string field"

record customer =
  c_id :: "string field"
  c_name :: "string field"
  c_address :: "address field"

record tax_rate =
  percentage :: "rat field"

record tax_amount =
  ta_amount :: "int field"

record price =
  unit_label :: "string field"

record line_item =
  li_object :: "string field"
  description :: "string field"
  quantity :: "int field"
  price :: "price field"
  amount :: "int field"
  tax_rates :: "tax_rate list field"
  tax_amounts :: "tax_amount list field"

record tax_id =
  ti_type :: "string field"
  ti_value :: "string field"

record lines =
  data :: "line_item list field"

record status_transitions =
  paid_at :: "int field"

record invoice =
  inv_id :: "string field"
  total :: "int field"
  subtotal :: "int field"
  tax :: "int field"
  amount_paid :: "int field"
  currency :: "string field"
  number :: "string field"
  created :: "int field"
  payment_intent :: "string field"
  charge :: "string field"
  lines :: "lines field"
  status_transitions :: "status_transitions field"
  customer_tax_ids :: "tax_id list field"
  customer :: "customer field"

text \<open>A string read with \<^verbatim>\<open>get\<close> is true when it is there and not empty.\<close>

definition str_truthy :: "string option \<Rightarrow> bool" where
  "str_truthy s = (case s of None \<Rightarrow> False | Some t \<Rightarrow> t \<noteq> [])"

text \<open>\<^verbatim>\<open>map_stripe_payment_method(stripe_invoice)\<close>\<close>

definition map_stripe_payment_method :: "invoice \<Rightarrow> string" where
  "map_stripe_payment_method stripe_invoice =
     (let payment_intent_id = get (payment_intent stripe_invoice);
          charge_id = get (charge stripe_invoice)
      in if str_truthy payment_intent_id \<or> str_truthy charge_id then ''card'' else ''other'')"

text \<open>A customer dictionary is false when it has no key at all.\<close>

definition customer_empty :: "customer \<Rightarrow> bool" where
  "customer_empty c = (c_id c = Absent \<and> c_name c = Absent \<and> c_address c = Absent)"

text \<open>\<^verbatim>\<open>customer_data.get("address", {}).get(key)\<close>: the default \<^verbatim>\<open>{}\<close> replaces a
  missing address only; an address that is \<^verbatim>\<open>None\<close> has no \<^verbatim>\<open>get\<close>.\<close>

definition address_get :: "customer \<Rightarrow> (address \<Rightarrow> string field) \<Rightarrow> error + string option" where
  "address_get c key =
     (case c_address c of
        Absent \<Rightarrow> Inr None
      | Null \<Rightarrow> Inl AttributeError
      | Val a \<Rightarrow> Inr (get (key a)))"

text \<open>\<^verbatim>\<open>d[key] = value\<close>\<close>

definition dict_set :: "pydict \<Rightarrow> string \<Rightarrow> pyval \<Rightarrow> pydict" where
  "dict_set d k v = AList.update k v d"

text \<open>The three branches of \<^verbatim>\<open>get_client_details\<close> after the address fields.\<close>

definition classify :: "pydict \<Rightarrow> string option \<Rightarrow> string option \<Rightarrow> pydict" where
  "classify details name tax_code =
     (if str_truthy tax_code then
        dict_set (dict_set (dict_set details
          ''client_tax_code'' (of_str tax_code))
          ''client_company_name'' (of_str name))
          ''client_business_activity_kind'' (PStr ''other_business'')
      else
        (case name of
           None \<Rightarrow> details
         | Some n \<Rightarrow>
             if n = [] then details
             else
               (let parts = split_first_space n
                in if length parts = 2 then
                     dict_set (dict_set (dict_set details
                       ''client_first_name'' (PStr (parts ! 0)))
                       ''client_last_name'' (PStr (parts ! 1)))
                       ''client_business_activity_kind'' (PStr ''private_person'')
                   else
                     dict_set (dict_set details
                       ''client_company_name'' (PStr n))
                       ''client_business_activity_kind'' (PStr ''other_business''))))"

text \<open>\<^verbatim>\<open>get_client_details(customer_data, tax_code)\<close>\<close>

definition get_client_details :: "customer option \<Rightarrow> string option \<Rightarrow> error + pydict" where
  "get_client_details customer_data tax_code =
     (case customer_data of
        None \<Rightarrow> Inr []
      | Some c \<Rightarrow>
          if customer_empty c then Inr []
          else
            (case address_get c line1 of Inl e \<Rightarrow> Inl e | Inr street \<Rightarrow>
            (case address_get c city of Inl e \<Rightarrow> Inl e | Inr town \<Rightarrow>
            (case address_get c postal_code of Inl e \<Rightarrow> Inl e | Inr post_code \<Rightarrow>
            (case address_get c country of Inl e \<Rightarrow> Inl e | Inr land \<Rightarrow>
               (let details =
                      [(''client_street'', of_str street),
                       (''client_city'', of_str town),
                       (''client_post_code'', of_str post_code),
                       (''client_country'', of_str land)];
                    name = get (c_name c)
                in Inr (strip_none (classify details name tax_code))))))))"

section \<open>main.py\<close>

text \<open>The tax rate percentage of a line item: that of its first tax rate.\<close>

definition tax_percentage :: "line_item \<Rightarrow> rat option" where
  "tax_percentage item =
     (case get (tax_rates item) of
        None \<Rightarrow> None
      | Some [] \<Rightarrow> None
      | Some (r # rs) \<Rightarrow> get (percentage r))"

text \<open>\<^verbatim>\<open>sum(t.get('amount', 0) for t in item.get('tax_amounts', []))\<close>\<close>

fun sum_amounts :: "tax_amount list \<Rightarrow> int \<Rightarrow> error + int" where
  "sum_amounts [] acc = Inr acc"
| "sum_amounts (t # ts) acc =
     (case get_default (ta_amount t) 0 of
        None \<Rightarrow> Inl TypeError
      | Some a \<Rightarrow> sum_amounts ts (acc + a))"

definition tax_amount_total :: "line_item \<Rightarrow> error + int" where
  "tax_amount_total item =
     (case get_default (tax_amounts item) [] of
        None \<Rightarrow> Inl TypeError
      | Some ts \<Rightarrow> sum_amounts ts 0)"

text \<open>\<^verbatim>\<open>item.get('price', {}).get('unit_label', 'szt.')\<close>\<close>

definition unit_of :: "line_item \<Rightarrow> error + string option" where
  "unit_of item =
     (case price item of
        Absent \<Rightarrow> Inr (Some ''szt.'')
      | Null \<Rightarrow> Inl AttributeError
      | Val p \<Rightarrow> Inr (get_default (unit_label p) ''szt.''))"

text \<open>\<^verbatim>\<open>int(item['amount'] / item['quantity']) if item.get('quantity') else item.get('amount')\<close>\<close>

definition unit_net_price :: "line_item \<Rightarrow> error + int option" where
  "unit_net_price item =
     (case get (quantity item) of
        None \<Rightarrow> Inr (get (amount item))
      | Some q \<Rightarrow>
          if q = 0 then Inr (get (amount item))
          else
            (case amount item of
               Absent \<Rightarrow> Inl KeyError
             | Null \<Rightarrow> Inl TypeError
             | Val a \<Rightarrow>
                 (case truediv a q of
                    Inl e \<Rightarrow> Inl e
                  | Inr x \<Rightarrow> Inr (Some (int_of_double x)))))"

text \<open>The body of the loop over the line items: the service of one item.\<close>

definition make_service :: "line_item \<Rightarrow> error + pydict" where
  "make_service item =
     (case tax_amount_total item of Inl e \<Rightarrow> Inl e | Inr tax_total \<Rightarrow>
     (case unit_of item of Inl e \<Rightarrow> Inl e | Inr unit \<Rightarrow>
     (case get_default (amount item) 0 of None \<Rightarrow> Inl TypeError | Some net \<Rightarrow>
     (case unit_net_price item of Inl e \<Rightarrow> Inl e | Inr unit_net \<Rightarrow>
        (let service =
               [(''name'', of_str (get_default (description item) ''N/A'')),
                (''quantity'', of_int_opt (get_default (quantity item) 1)),
                (''unit'', of_str unit),
                (''net_price'', of_int_opt (get (amount item))),
                (''tax_price'', PInt tax_total),
                (''gross_price'', PInt (net + tax_total)),
                (''unit_net_price'', of_int_opt unit_net),
                (''flat_rate_tax_symbol'', PStr ''12'')];
             infakt_tax_symbol = map_stripe_tax_rate_to_infakt_symbol (tax_percentage item);
             service = (case infakt_tax_symbol of
                          None \<Rightarrow> service
                        | Some symbol \<Rightarrow>
                            if symbol = [] then service
                            else dict_set service ''tax_symbol'' (PStr symbol))
         in Inr (strip_none service))))))"

text \<open>The loop over \<^verbatim>\<open>stripe_invoice['lines']['data']\<close>; an exception ends it.\<close>

fun services_loop :: "line_item list \<Rightarrow> pydict list \<Rightarrow> error + pydict list" where
  "services_loop [] infakt_services = Inr infakt_services"
| "services_loop (item # items) infakt_services =
     (if get (li_object item) \<noteq> Some ''line_item'' then services_loop items infakt_services
      else
        (case make_service item of
           Inl e \<Rightarrow> Inl e
         | Inr service \<Rightarrow> services_loop items (infakt_services @ [service])))"

text \<open>The loop over \<^verbatim>\<open>customer_tax_ids\<close>: every true value is stored in \<open>nip\<close>, and the
  loop breaks at one of type \<^verbatim>\<open>eu_vat\<close>.\<close>

fun nip_loop :: "tax_id list \<Rightarrow> string option \<Rightarrow> string option" where
  "nip_loop [] nip = nip"
| "nip_loop (tax_id_obj # rest) nip =
     (let v = get (ti_value tax_id_obj)
      in if str_truthy v then
           (if get (ti_type tax_id_obj) = Some ''eu_vat'' then v else nip_loop rest v)
         else nip_loop rest nip)"

definition extract_nip :: "invoice \<Rightarrow> error + string option" where
  "extract_nip stripe_invoice =
     (case get_default (customer_tax_ids stripe_invoice) [] of
        None \<Rightarrow> Inl TypeError
      | Some ids \<Rightarrow> Inr (nip_loop ids None))"

text \<open>\<^verbatim>\<open>stripe_invoice.get('status_transitions', {}).get('paid_at')\<close>\<close>

definition paid_at_of :: "invoice \<Rightarrow> error + int option" where
  "paid_at_of stripe_invoice =
     (case status_transitions stripe_invoice of
        Absent \<Rightarrow> Inr None
      | Null \<Rightarrow> Inl AttributeError
      | Val st \<Rightarrow> Inr (get (paid_at st)))"

text \<open>\<^verbatim>\<open>stripe_invoice.get('currency', 'PLN').upper()\<close>\<close>

definition currency_of :: "invoice \<Rightarrow> error + string" where
  "currency_of stripe_invoice =
     (case get_default (currency stripe_invoice) ''PLN'' of
        None \<Rightarrow> Inl AttributeError
      | Some c \<Rightarrow> Inr (upper c))"

text \<open>The line items the loop runs over, \<open>None\<close> when the invoice is skipped for
  having none.\<close>

definition line_items :: "invoice \<Rightarrow> line_item list option" where
  "line_items stripe_invoice =
     (case get (lines stripe_invoice) of
        None \<Rightarrow> None
      | Some l \<Rightarrow>
          (case get (data l) of
             None \<Rightarrow> None
           | Some [] \<Rightarrow> None
           | Some (item # items) \<Rightarrow> Some (item # items)))"

text \<open>The dictionary literal of the payload, before \<^verbatim>\<open>**client_data\<close> is merged in.\<close>

definition payload_fields ::
  "invoice \<Rightarrow> string option \<Rightarrow> string option \<Rightarrow> string \<Rightarrow> pydict list \<Rightarrow> pydict" where
  "payload_fields stripe_invoice paid_date_str sale_date_str cur infakt_services =
     [(''invoice_date'', of_str paid_date_str),
      (''sale_date'', of_str sale_date_str),
      (''paid_date'', of_str paid_date_str),
      (''payment_date'', of_str paid_date_str),
      (''currency'', PStr cur),
      (''status'', PStr ''paid''),
      (''kind'', PStr ''vat''),
      (''payment_method'', PStr (map_stripe_payment_method stripe_invoice)),
      (''number'', of_str (get (number stripe_invoice))),
      (''net_price'', of_int_opt (get (subtotal stripe_invoice))),
      (''tax_price'', of_int_opt (get (tax stripe_invoice))),
      (''gross_price'', of_int_opt (get (total stripe_invoice))),
      (''paid_price'', of_int_opt (get (amount_paid stripe_invoice))),
      (''left_to_pay'', PInt 0),
      (''sale_type'', PStr ''service''),
      (''services'', PList (map PDict infakt_services))]"

text \<open>\<^verbatim>\<open>transform_stripe_to_infakt(stripe_invoice)\<close>: \<open>Inr None\<close> is the returned
  \<^verbatim>\<open>None\<close> of a skipped invoice. The log lines are left out.\<close>

definition transform_stripe_to_infakt :: "invoice \<Rightarrow> error + pydict option" where
  "transform_stripe_to_infakt stripe_invoice =
     (if get_default (total stripe_invoice) 0 = Some 0 then Inr None
      else
        (case line_items stripe_invoice of
           None \<Rightarrow> Inr None
         | Some items \<Rightarrow>
        (case services_loop items [] of Inl e \<Rightarrow> Inl e | Inr infakt_services \<Rightarrow>
           if infakt_services = [] then Inr None
           else
        (case paid_at_of stripe_invoice of Inl e \<Rightarrow> Inl e | Inr paid_at_ts \<Rightarrow>
           (let paid_date_str = timestamp_to_infakt_date paid_at_ts;
                sale_date_str = timestamp_to_infakt_date (get (created stripe_invoice));
                sale_date_str = (if str_truthy paid_date_str then paid_date_str else sale_date_str)
            in
        (case extract_nip stripe_invoice of Inl e \<Rightarrow> Inl e | Inr nip \<Rightarrow>
        (case get_client_details (get (customer stripe_invoice)) nip of
           Inl e \<Rightarrow> Inl e | Inr client_data \<Rightarrow>
        (case currency_of stripe_invoice of Inl e \<Rightarrow> Inl e | Inr cur \<Rightarrow>
           (let payload = dict_merge
                  (payload_fields stripe_invoice paid_date_str sale_date_str cur infakt_services)
                  client_data;
                cleaned_payload = strip_none payload
            in if \<not> truthy (dict_get cleaned_payload ''services'') then Inr None
               else if \<not> truthy (dict_get cleaned_payload ''invoice_date'') then Inr None
               else Inr (Some cleaned_payload))))))))))"

text \<open>The entries of the lines list that the loop does not pass over.\<close>

definition is_line_item :: "line_item \<Rightarrow> bool" where
  "is_line_item item = (get (li_object item) = Some ''line_item'')"

section \<open>stripe_client.py\<close>

text \<open>
  What one call of \<^verbatim>\<open>stripe.Invoice.list\<close> gives back: a page with its
  \<^verbatim>\<open>has_more\<close> flag, a rate limit error, or any other exception. The replies of the
  service are taken in the order the calls receive them.
\<close>

datatype list_reply = Page "invoice list" bool | RateLimited | Failed error

text \<open>The \<^verbatim>\<open>while True\<close> loop. A rate limit error repeats the call, so the loop ends
  only at a reply that ends it: \<open>None\<close> says the replies ran out before that. After a page
  that has more, \<^verbatim>\<open>starting_after = invoices.data[-1].id\<close> reads the identifier of the
  last invoice of the page, an \<^verbatim>\<open>AttributeError\<close> when that invoice has none.\<close>

fun fetch_loop :: "list_reply list \<Rightarrow> invoice list \<Rightarrow> (error + invoice list) option" where
  "fetch_loop [] all_paid_invoices_raw = None"
| "fetch_loop (Page page has_more # replies) all_paid_invoices_raw =
     (if page = [] then Some (Inr all_paid_invoices_raw)
      else if \<not> has_more then Some (Inr (all_paid_invoices_raw @ page))
      else (case inv_id (last page) of
              Absent \<Rightarrow> Some (Inl AttributeError)
            | _ \<Rightarrow> fetch_loop replies (all_paid_invoices_raw @ page)))"
| "fetch_loop (RateLimited # replies) all_paid_invoices_raw =
     fetch_loop replies all_paid_invoices_raw"
| "fetch_loop (Failed e # replies) all_paid_invoices_raw = Some (Inl e)"

text \<open>The client-side filter: \<^verbatim>\<open>if paid_at and start_timestamp <= paid_at <= end_timestamp\<close>.\<close>

fun filter_loop :: "invoice list \<Rightarrow> int \<Rightarrow> int \<Rightarrow> invoice list \<Rightarrow> error + invoice list" where
  "filter_loop [] start_timestamp end_timestamp filtered_invoices = Inr filtered_invoices"
| "filter_loop (inv_obj # rest) start_timestamp end_timestamp filtered_invoices =
     (case paid_at_of inv_obj of
        Inl e \<Rightarrow> Inl e
      | Inr None \<Rightarrow> filter_loop rest start_timestamp end_timestamp filtered_invoices
      | Inr (Some t) \<Rightarrow>
          if t \<noteq> 0 \<and> start_timestamp \<le> t \<and> t \<le> end_timestamp
          then filter_loop rest start_timestamp end_timestamp (filtered_invoices @ [inv_obj])
          else filter_loop rest start_timestamp end_timestamp filtered_invoices)"

text \<open>\<^verbatim>\<open>StripeClient.get_paid_invoices(start_timestamp, end_timestamp)\<close>\<close>

definition get_paid_invoices ::
  "list_reply list \<Rightarrow> int \<Rightarrow> int \<Rightarrow> (error + invoice list) option" where
  "get_paid_invoices replies start_timestamp end_timestamp =
     (case fetch_loop replies [] of
        None \<Rightarrow> None
      | Some (Inl e) \<Rightarrow> Some (Inl e)
      | Some (Inr all_paid_invoices_raw) \<Rightarrow>
          Some (filter_loop all_paid_invoices_raw start_timestamp end_timestamp []))"

section \<open>infakt_client.py\<close>

text \<open>
  What \<^verbatim>\<open>.json()\<close> does on the body of a response: it reads a value, it finds that the
  text is not JSON (a \<^verbatim>\<open>JSONDecodeError\<close>), or the parser raises another exception
  (a \<^verbatim>\<open>RecursionError\<close> on a deeply nested body, a \<^verbatim>\<open>ValueError\<close> on an integer
  of several thousand digits).
\<close>

datatype json_result = Parsed pyval | Not_json | Parse_raised error

text \<open>
  The answer to the one \<^verbatim>\<open>requests.post\<close>: a response (its status, its text, and
  what \<^verbatim>\<open>.json()\<close> does on it), a \<^verbatim>\<open>RequestException\<close>, which carries a response
  (too many redirects) or none (connection error, timeout), or any other exception.
\<close>

record response =
  status_code :: int
  body_text :: string
  body_json :: json_result

datatype post_result = Responded response | RequestFailed "response option" | PostRaised

datatype log_line =
  Info_submitted pyval
  | Error_sending
  | Error_response_json pyval
  | Error_response_text string
  | Error_unexpected

text \<open>What a call leaves behind: the requests it sent, the lines it logged, and how it
  ended, \<open>Inr\<close> with the value it returned (\<open>None\<close> for Python's \<^verbatim>\<open>None\<close>) or
  \<open>Inl\<close> with the exception that left the function.\<close>

record submission =
  posted :: "pydict list"
  returned :: "error + pydict option"
  logged :: "log_line list"

text \<open>\<^verbatim>\<open>response.raise_for_status()\<close> raises for the statuses 400 to 599.\<close>

definition raises_for_status :: "response \<Rightarrow> bool" where
  "raises_for_status r = (400 \<le> status_code r \<and> status_code r < 600)"

text \<open>The envelope: \<^verbatim>\<open>if 'invoice' not in invoice_payload\<close>.\<close>

definition envelope :: "pydict \<Rightarrow> pydict" where
  "envelope invoice_payload =
     (if map_of invoice_payload ''invoice'' = None
      then [(''invoice'', PDict invoice_payload)]
      else invoice_payload)"

text \<open>The handler \<^verbatim>\<open>except requests.exceptions.RequestException as e\<close>, given the
  response the exception carries. Around \<^verbatim>\<open>e.response.json()\<close> only
  \<^verbatim>\<open>json.JSONDecodeError\<close> is caught: any other exception of the parser is raised
  inside the handler and leaves the function.\<close>

definition request_exception_handler :: "pydict \<Rightarrow> response option \<Rightarrow> submission" where
  "request_exception_handler payload e_response =
     (case e_response of
        None \<Rightarrow> \<lparr>posted = [payload], returned = Inr None, logged = [Error_sending]\<rparr>
      | Some r \<Rightarrow>
          (case body_json r of
             Parsed error_details \<Rightarrow>
               \<lparr>posted = [payload], returned = Inr None,
                logged = [Error_sending, Error_response_json error_details]\<rparr>
           | Not_json \<Rightarrow>
               \<lparr>posted = [payload], returned = Inr None,
                logged = [Error_sending, Error_response_text (body_text r)]\<rparr>
           | Parse_raised err \<Rightarrow>
               \<lparr>posted = [payload], returned = Inl err, logged = [Error_sending]\<rparr>))"

text \<open>\<^verbatim>\<open>InfaktClient.create_invoice_async(invoice_payload)\<close>, with the answer of the
  service as an argument. \<^verbatim>\<open>raise_for_status\<close> raises an \<^verbatim>\<open>HTTPError\<close> that carries
  the response. In the \<^verbatim>\<open>try\<close> block, \<^verbatim>\<open>response.json()\<close> on a text that is not JSON
  raises a \<^verbatim>\<open>RequestException\<close> without a response, any other exception of the parser
  is caught by the last handler, and so is the \<^verbatim>\<open>AttributeError\<close> of reading the task
  reference from a body that is not a dictionary.\<close>

definition create_invoice_async :: "pydict \<Rightarrow> post_result \<Rightarrow> submission" where
  "create_invoice_async invoice_payload answer =
     (let payload = envelope invoice_payload
      in case answer of
           RequestFailed e_response \<Rightarrow> request_exception_handler payload e_response
         | PostRaised \<Rightarrow>
             \<lparr>posted = [payload], returned = Inr None, logged = [Error_unexpected]\<rparr>
         | Responded r \<Rightarrow>
             if raises_for_status r then request_exception_handler payload (Some r)
             else
               (case body_json r of
                  Not_json \<Rightarrow> request_exception_handler payload None
                | Parse_raised err \<Rightarrow>
                    \<lparr>posted = [payload], returned = Inr None, logged = [Error_unexpected]\<rparr>
                | Parsed (PDict response_data) \<Rightarrow>
                    \<lparr>posted = [payload], returned = Inr (Some response_data),
                     logged = [Info_submitted
                       (dict_get response_data ''invoice_task_reference_number'')]\<rparr>
                | Parsed other \<Rightarrow>
                    \<lparr>posted = [payload], returned = Inr None, logged = [Error_unexpected]\<rparr>))"

section \<open>Specification functions and example inputs\<close>

text \<open>The sum of the applied tax amounts of a line item, 0 when it has none.\<close>

definition applied_tax_sum :: "line_item \<Rightarrow> int" where
  "applied_tax_sum item =
     sum_list (map (\<lambda>t. case get (ta_amount t) of None \<Rightarrow> 0 | Some a \<Rightarrow> a)
       (case get (tax_amounts item) of None \<Rightarrow> [] | Some ts \<Rightarrow> ts))"

text \<open>A line item of 4000 for a quantity of 2 with 800 of tax at 20 percent, a credit
  line of -5 for a quantity of 2 with no tax data, and an entry of the lines list that
  is no line item.\<close>

definition item_B :: line_item where
  "item_B = \<lparr>li_object = Val ''line_item'', description = Val ''Plan'', quantity = Val 2,
     price = Val \<lparr>unit_label = Null\<rparr>, amount = Val 4000,
     tax_rates = Val [\<lparr>percentage = Val 20\<rparr>],
     tax_amounts = Val [\<lparr>ta_amount = Val 800\<rparr>]\<rparr>"

definition item_credit :: line_item where
  "item_credit = \<lparr>li_object = Val ''line_item'', description = Absent, quantity = Val 2,
     price = Absent, amount = Val (- 5), tax_rates = Absent, tax_amounts = Absent\<rparr>"

definition item_other :: line_item where
  "item_other = item_B\<lparr>li_object := Val ''invoiceitem''\<rparr>"

definition customer_C :: customer where
  "customer_C = \<lparr>c_id = Val ''cus_1'', c_name = Val ''Jan Kowalski'',
     c_address = Val \<lparr>line1 = Val ''Prosta 1'', city = Val ''Warszawa'',
       postal_code = Val ''00-001'', country = Val ''PL''\<rparr>\<rparr>"

definition invoice_B :: invoice where
  "invoice_B = \<lparr>inv_id = Val ''in_1'', total = Val 5000, subtotal = Val 4000, tax = Val 800,
     amount_paid = Val 5000, currency = Val ''pln'', number = Val ''F-1'',
     created = Val 1709200000, payment_intent = Val ''pi_1'', charge = Null,
     lines = Val \<lparr>data = Val [item_other, item_B, item_credit]\<rparr>,
     status_transitions = Val \<lparr>paid_at = Val 1709251199\<rparr>,
     customer_tax_ids = Val [], customer = Val customer_C\<rparr>"

text \<open>The example invoice with a lines list that holds no line item.\<close>

definition invoice_no_line_item :: invoice where
  "invoice_no_line_item = invoice_B\<lparr>lines := Val \<lparr>data = Val [item_other]\<rparr>\<rparr>"

text \<open>Two tax identifiers, neither of type \<^verbatim>\<open>eu_vat\<close>; a customer whose address is
  \<^verbatim>\<open>None\<close>; a customer with a name of three words.\<close>

definition tax_ids_two :: "tax_id list" where
  "tax_ids_two = [\<lparr>ti_type = Val ''us_ein'', ti_value = Val ''1''\<rparr>,
                  \<lparr>ti_type = Val ''gb_vat'', ti_value = Val ''2''\<rparr>]"

definition invoice_two_tax_ids :: invoice where
  "invoice_two_tax_ids = invoice_B\<lparr>customer_tax_ids := Val tax_ids_two\<rparr>"

definition customer_null_address :: customer where
  "customer_null_address = customer_C\<lparr>c_address := Null\<rparr>"

definition customer_three_words :: customer where
  "customer_three_words = customer_C\<lparr>c_name := Val ''Jan Maria Kowalski''\<rparr>"

text \<open>The invoices that the filter of \<^verbatim>\<open>get_paid_invoices\<close> is to keep: the paid
  timestamp is there, is not \<^verbatim>\<open>None\<close>, and lies in the range.\<close>

definition paid_at_within :: "int \<Rightarrow> int \<Rightarrow> invoice \<Rightarrow> bool" where
  "paid_at_within start_ts end_ts i =
     (case status_transitions i of
        Val st \<Rightarrow>
          (case paid_at st of
             Val t \<Rightarrow> start_ts \<le> t \<and> t \<le> end_ts
           | _ \<Rightarrow> False)
      | _ \<Rightarrow> False)"

text \<open>The invoices that the condition \<^verbatim>\<open>if paid_at and start_timestamp <= paid_at <=
  end_timestamp\<close> keeps: the paid timestamp is there, is not \<^verbatim>\<open>None\<close>, is not 0, and
  lies in the range.\<close>

definition paid_in_range :: "int \<Rightarrow> int \<Rightarrow> invoice \<Rightarrow> bool" where
  "paid_in_range start_ts end_ts i =
     (case status_transitions i of
        Val st \<Rightarrow>
          (case paid_at st of
             Val t \<Rightarrow> t \<noteq> 0 \<and> start_ts \<le> t \<and> t \<le> end_ts
           | _ \<Rightarrow> False)
      | _ \<Rightarrow> False)"

text \<open>The example invoice, paid at second 0 of the epoch.\<close>

definition invoice_paid_at_epoch :: invoice where
  "invoice_paid_at_epoch = invoice_B\<lparr>status_transitions := Val \<lparr>paid_at = Val 0\<rparr>\<rparr>"



text \<open>A response with status 500 whose body is nested too deeply for the parser.\<close>

definition response_500_nested :: response where
  "response_500_nested = \<lparr>status_code = 500,
     body_text = replicate 100000 (CHR ''[''),
     body_json = Parse_raised RecursionError\<rparr>"

text \<open>The month after a month.\<close>

definition following_month :: "int \<Rightarrow> int \<Rightarrow> int \<times> int" where
  "following_month year month = (if month = 12 then (year + 1, 1) else (year, month + 1))"

text \<open>The timestamp of midnight UTC on day 1 of a month: 86400 seconds for each day
  since 1 January 1970.\<close>

definition month_start :: "int \<Rightarrow> int \<Rightarrow> int" where
  "month_start year month = (ymd2ord year month 1 - ymd2ord 1970 1 1) * 86400"

text \<open>The payload of the example invoice.\<close>

definition payload_B :: pydict where
  "payload_B =
     [(''invoice_date'', PStr ''2024-02-29''),
      (''sale_date'', PStr ''2024-02-29''),
      (''paid_date'', PStr ''2024-02-29''),
      (''payment_date'', PStr ''2024-02-29''),
      (''currency'', PStr ''PLN''), (''status'', PStr ''paid''),
      (''kind'', PStr ''vat''), (''payment_method'', PStr ''card''),
      (''number'', PStr ''F-1''), (''net_price'', PInt 4000),
      (''tax_price'', PInt 800), (''gross_price'', PInt 5000),
      (''paid_price'', PInt 5000), (''left_to_pay'', PInt 0),
      (''sale_type'', PStr ''service''),
      (''services'',
       PList
        [PDict
          [(''name'', PStr ''Plan''), (''quantity'', PInt 2),
           (''net_price'', PInt 4000), (''tax_price'', PInt 800),
           (''gross_price'', PInt 4800),
           (''unit_net_price'', PInt 2000),
           (''flat_rate_tax_symbol'', PStr ''12'')],
         PDict
          [(''name'', PStr ''N/A''), (''quantity'', PInt 2),
           (''unit'', PStr ''szt.''), (''net_price'', PInt (- 5)),
           (''tax_price'', PInt 0), (''gross_price'', PInt (- 5)),
           (''unit_net_price'', PInt (- 2)),
           (''flat_rate_tax_symbol'', PStr ''12''),
           (''tax_symbol'', PStr ''zw'')]]),
      (''client_street'', PStr ''Prosta 1''),
      (''client_city'', PStr ''Warszawa''),
      (''client_post_code'', PStr ''00-001''),
      (''client_country'', PStr ''PL''),
      (''client_first_name'', PStr ''Jan''),
      (''client_last_name'', PStr ''Kowalski''),
      (''client_business_activity_kind'', PStr ''private_person'')]"

section \<open>Evaluation\<close>

lemma bit_length_0 [simp]: "bit_length 0 = 0"
  by (simp add: bit_length.simps)

lemma bit_length_numeral [simp]:
  "bit_length (numeral k) = Suc (bit_length (numeral k div 2))"
  by (subst bit_length.simps) simp

lemma bit_length_1 [simp]: "bit_length (Suc 0) = Suc 0"
  by (simp add: bit_length.simps)

lemmas truediv_eval = truediv_def truediv_pos_def quotient_exponent_def round_half_even_def
  int_of_double_def Let_def

lemmas dict_eval = dict_get_def strip_none_def dict_merge_def dict_set_def of_str_def
  of_int_opt_def str_truthy_def


lemmas date_eval = timestamp_to_infakt_date_def fromtimestamp_utc_def strftime_ymd_def
  ord2ymd_def pad2_def year_digits_def digit_def MAXORDINAL_def EPOCH_ORDINAL_def
  DAYS_IN_MONTH_def DAYS_BEFORE_MONTH_def Let_def

lemmas service_eval = make_service_def tax_amount_total_def unit_of_def unit_net_price_def
  tax_percentage_def map_stripe_tax_rate_to_infakt_symbol_def

lemmas client_eval = get_client_details_def customer_empty_def address_get_def classify_def

section \<open>Dictionaries\<close>

lemma map_of_strip_none:
  "distinct (map fst d) \<Longrightarrow>
   map_of (strip_none d) k =
     (case map_of d k of None \<Rightarrow> None | Some v \<Rightarrow> if v = PNone then None else Some v)"
proof (induction d)
  case Nil
  then show ?case by (simp add: strip_none_def)
next
  case (Cons kv d)
  obtain k' v' where kv: "kv = (k', v')" by (cases kv)
  from Cons.prems have notin: "k' \<notin> fst ` set d" and dist: "distinct (map fst d)"
    by (auto simp: kv)
  have ih: "map_of (filter (\<lambda>kv. snd kv \<noteq> PNone) d) k =
     (case map_of d k of None \<Rightarrow> None | Some v \<Rightarrow> if v = PNone then None else Some v)"
    using Cons.IH [OF dist] by (simp add: strip_none_def)
  have absent: "map_of d k' = None"
    using notin by (simp add: map_of_eq_None_iff)
  show ?case
    using ih absent by (auto simp: strip_none_def kv)
qed

lemma keys_strip_none: "fst ` set (strip_none d) \<subseteq> fst ` set d"
  by (auto simp: strip_none_def)

lemma map_of_dict_merge_other:
  "k \<notin> fst ` set e \<Longrightarrow> map_of (dict_merge d e) k = map_of d k"
  unfolding dict_merge_def
  by (induction e arbitrary: d) (auto simp: update_conv')

lemma distinct_dict_merge:
  "distinct (map fst d) \<Longrightarrow> distinct (map fst (dict_merge d e))"
  unfolding dict_merge_def
  by (induction e arbitrary: d) (auto simp: distinct_update)

section \<open>The services of an invoice\<close>

lemma services_loop_acc:
  "services_loop items acc = Inr svcs \<Longrightarrow>
   \<exists>new. svcs = acc @ new \<and>
     list_all2 (\<lambda>item s. make_service item = Inr s) (filter is_line_item items) new"
proof (induction items arbitrary: acc)
  case Nil
  then show ?case by simp
next
  case (Cons item items)
  show ?case
  proof (cases "is_line_item item")
    case False
    then have "services_loop items acc = Inr svcs"
      using Cons.prems by (simp add: is_line_item_def)
    from Cons.IH [OF this] False show ?thesis by simp
  next
    case True
    then obtain s where s: "make_service item = Inr s"
      and rest: "services_loop items (acc @ [s]) = Inr svcs"
      using Cons.prems by (auto simp: is_line_item_def split: sum.splits)
    from Cons.IH [OF rest] obtain new where
      "svcs = (acc @ [s]) @ new"
      "list_all2 (\<lambda>item s. make_service item = Inr s) (filter is_line_item items) new"
      by blast
    then show ?thesis using True s by simp
  qed
qed

lemma services_loop_none:
  "\<forall>item \<in> set items. \<not> is_line_item item \<Longrightarrow> services_loop items acc = Inr acc"
  by (induction items arbitrary: acc) (auto simp: is_line_item_def)

lemma classify_keys:
  "fst ` set (classify details name tax_code) \<subseteq>
     fst ` set details \<union> {''client_tax_code'', ''client_company_name'',
       ''client_business_activity_kind'', ''client_first_name'', ''client_last_name''}"
  by (auto simp: classify_def dict_set_def dom_update Let_def split: option.splits)

lemma client_details_keys:
  assumes "get_client_details c t = Inr cd"
  shows "fst ` set cd \<subseteq> {''client_street'', ''client_city'', ''client_post_code'',
     ''client_country'', ''client_tax_code'', ''client_company_name'',
     ''client_business_activity_kind'', ''client_first_name'', ''client_last_name''}"
proof (cases c)
  case None
  then show ?thesis using assms by (simp add: get_client_details_def)
next
  case (Some cu)
  show ?thesis
  proof (cases "customer_empty cu")
    case True
    then show ?thesis using assms Some by (simp add: get_client_details_def)
  next
    case False
    then obtain details where cd: "cd = strip_none (classify details (get (c_name cu)) t)"
      and d: "fst ` set details = {''client_street'', ''client_city'', ''client_post_code'',
     ''client_country''}"
      using assms Some
      by (auto simp: get_client_details_def Let_def split: sum.splits)
    show ?thesis
      using keys_strip_none [of "classify details (get (c_name cu)) t"]
        classify_keys [of details "get (c_name cu)" t]
      unfolding cd d by blast
  qed
qed

lemma transform_services:
  assumes "transform_stripe_to_infakt si = Inr (Some payload)"
  shows "\<exists>items svcs. line_items si = Some items \<and> services_loop items [] = Inr svcs
     \<and> map_of payload ''services'' = Some (PList (map PDict svcs))"
proof -
  from assms obtain items where items: "line_items si = Some items"
    by (auto simp: transform_stripe_to_infakt_def split: if_splits option.splits)
  from assms items obtain svcs where svcs: "services_loop items [] = Inr svcs"
    by (auto simp: transform_stripe_to_infakt_def split: if_splits sum.splits)
  from assms items svcs obtain pd sd cur nip cd where
    payload: "payload = strip_none (dict_merge (payload_fields si pd sd cur svcs) cd)"
    and cd: "get_client_details (get (customer si)) nip = Inr cd"
    by (auto simp: transform_stripe_to_infakt_def Let_def split: if_splits sum.splits)
  have notin: "''services'' \<notin> fst ` set cd"
    using client_details_keys [OF cd] by auto
  have 1: "map_of (payload_fields si pd sd cur svcs) ''services'' = Some (PList (map PDict svcs))"
    by (simp add: payload_fields_def)
  have 2: "distinct (map fst (payload_fields si pd sd cur svcs))"
    by (simp add: payload_fields_def)
  have "map_of payload ''services'' = Some (PList (map PDict svcs))"
    unfolding payload
    by (simp add: map_of_strip_none [OF distinct_dict_merge [OF 2]]
        map_of_dict_merge_other [OF notin] 1)
  with items svcs show ?thesis by blast
qed

lemma sum_amounts_acc:
  "sum_amounts ts acc = Inr t \<Longrightarrow>
   t = acc + sum_list (map (\<lambda>t. case get (ta_amount t) of None \<Rightarrow> 0 | Some a \<Rightarrow> a) ts)"
proof (induction ts arbitrary: acc)
  case Nil
  then show ?case by simp
next
  case (Cons x ts)
  show ?case
  proof (cases "ta_amount x")
    case Absent
    with Cons.prems have "sum_amounts ts (acc + 0) = Inr t" by simp
    from Cons.IH [OF this] Absent show ?thesis by simp
  next
    case Null
    with Cons.prems show ?thesis by simp
  next
    case (Val a)
    with Cons.prems have "sum_amounts ts (acc + a) = Inr t" by simp
    from Cons.IH [OF this] Val show ?thesis by simp
  qed
qed

lemma tax_amount_total_sum:
  "tax_amount_total item = Inr t \<Longrightarrow> t = applied_tax_sum item"
  unfolding tax_amount_total_def applied_tax_sum_def
  by (cases "tax_amounts item") (auto dest: sum_amounts_acc)

lemma make_service_result:
  assumes "make_service item = Inr s"
  shows "\<exists>unit net unit_net.
     unit_of item = Inr unit \<and> get_default (amount item) 0 = Some net
     \<and> unit_net_price item = Inr unit_net
     \<and> s = strip_none
        ([(''name'', of_str (get_default (description item) ''N/A'')),
          (''quantity'', of_int_opt (get_default (quantity item) 1)),
          (''unit'', of_str unit),
          (''net_price'', of_int_opt (get (amount item))),
          (''tax_price'', PInt (applied_tax_sum item)),
          (''gross_price'', PInt (net + applied_tax_sum item)),
          (''unit_net_price'', of_int_opt unit_net),
          (''flat_rate_tax_symbol'', PStr ''12'')]
         @ (if tax_percentage item = None then [(''tax_symbol'', PStr ''zw'')] else []))"
proof -
  from assms obtain t where t: "tax_amount_total item = Inr t"
    by (auto simp: make_service_def split: sum.splits)
  have t': "t = applied_tax_sum item" by (rule tax_amount_total_sum [OF t])
  from assms t obtain unit where u: "unit_of item = Inr unit"
    by (auto simp: make_service_def split: sum.splits)
  from assms t u obtain net where n: "get_default (amount item) 0 = Some net"
    by (auto simp: make_service_def split: sum.splits option.splits)
  from assms t u n obtain unit_net where un: "unit_net_price item = Inr unit_net"
    by (auto simp: make_service_def split: sum.splits option.splits)
  from assms show ?thesis
    unfolding make_service_def t u n un t'
    by (auto simp: Let_def map_stripe_tax_rate_to_infakt_symbol_def str_truthy_def dict_set_def)
qed

lemma service_gross:
  assumes "make_service item = Inr s"
  shows "map_of s ''tax_price'' = Some (PInt (applied_tax_sum item))
    \<and> (case amount item of
          Val a \<Rightarrow> map_of s ''net_price'' = Some (PInt a)
                   \<and> map_of s ''gross_price'' = Some (PInt (a + applied_tax_sum item))
        | _ \<Rightarrow> map_of s ''net_price'' = None
                   \<and> map_of s ''gross_price'' = Some (PInt (applied_tax_sum item)))"
proof -
  from make_service_result [OF assms] obtain unit net unit_net where
    n: "get_default (amount item) 0 = Some net"
    and s: "s = strip_none
        ([(''name'', of_str (get_default (description item) ''N/A'')),
          (''quantity'', of_int_opt (get_default (quantity item) 1)),
          (''unit'', of_str unit),
          (''net_price'', of_int_opt (get (amount item))),
          (''tax_price'', PInt (applied_tax_sum item)),
          (''gross_price'', PInt (net + applied_tax_sum item)),
          (''unit_net_price'', of_int_opt unit_net),
          (''flat_rate_tax_symbol'', PStr ''12'')]
         @ (if tax_percentage item = None then [(''tax_symbol'', PStr ''zw'')] else []))"
    by blast
  show ?thesis
    using n unfolding s
    by (cases "amount item") (simp_all add: map_of_strip_none of_int_opt_def)
qed

text \<open>The percentage read at \<^verbatim>\<open>item['tax_rates'][0].get('percentage')\<close> is missing
  exactly when the item has no first tax rate or that tax rate has no percentage.\<close>

lemma first_rate_percentage:
  "(if tax_percentage item = None then Some (PStr ''zw'') else None) =
     (case tax_rates item of
        Val (r # rs) \<Rightarrow>
          (case percentage r of
             Val p \<Rightarrow> None
           | _ \<Rightarrow> Some (PStr ''zw''))
      | _ \<Rightarrow> Some (PStr ''zw''))"
  by (simp add: tax_percentage_def split: field.splits list.splits)

lemma service_tax_symbol:
  assumes "make_service item = Inr s"
  shows "map_of s ''tax_symbol'' =
     (if tax_percentage item = None then Some (PStr ''zw'') else None)"
proof -
  from make_service_result [OF assms] obtain unit net unit_net where
    s: "s = strip_none
        ([(''name'', of_str (get_default (description item) ''N/A'')),
          (''quantity'', of_int_opt (get_default (quantity item) 1)),
          (''unit'', of_str unit),
          (''net_price'', of_int_opt (get (amount item))),
          (''tax_price'', PInt (applied_tax_sum item)),
          (''gross_price'', PInt (net + applied_tax_sum item)),
          (''unit_net_price'', of_int_opt unit_net),
          (''flat_rate_tax_symbol'', PStr ''12'')]
         @ (if tax_percentage item = None then [(''tax_symbol'', PStr ''zw'')] else []))"
    by blast
  show ?thesis
    unfolding s by (simp add: map_of_strip_none)
qed

lemma transform_services_made:
  assumes "transform_stripe_to_infakt si = Inr (Some payload)"
  shows "\<exists>items services. line_items si = Some items
     \<and> map_of payload ''services'' = Some (PList (map PDict services))
     \<and> list_all2 (\<lambda>item s. make_service item = Inr s) (filter is_line_item items) services"
proof -
  from transform_services [OF assms] obtain items svcs where
    "line_items si = Some items" "services_loop items [] = Inr svcs"
    "map_of payload ''services'' = Some (PList (map PDict svcs))"
    by blast
  moreover from services_loop_acc [OF \<open>services_loop items [] = Inr svcs\<close>]
  have "list_all2 (\<lambda>item s. make_service item = Inr s) (filter is_line_item items) svcs"
    by simp
  ultimately show ?thesis by blast
qed

subsection \<open>The example invoice\<close>

lemma make_service_item_B:
  "make_service item_B =
     Inr [(''name'', PStr ''Plan''), (''quantity'', PInt 2),
          (''net_price'', PInt 4000), (''tax_price'', PInt 800),
          (''gross_price'', PInt 4800), (''unit_net_price'', PInt 2000),
          (''flat_rate_tax_symbol'', PStr ''12'')]"
  by (simp add: item_B_def service_eval dict_eval truediv_eval)

lemma make_service_item_credit:
  "make_service item_credit =
     Inr [(''name'', PStr ''N/A''), (''quantity'', PInt 2),
          (''unit'', PStr ''szt.''), (''net_price'', PInt (- 5)),
          (''tax_price'', PInt 0), (''gross_price'', PInt (- 5)),
          (''unit_net_price'', PInt (- 2)),
          (''flat_rate_tax_symbol'', PStr ''12''),
          (''tax_symbol'', PStr ''zw'')]"
  by (simp add: item_credit_def service_eval dict_eval truediv_eval)

lemma client_details_customer_C:
  "get_client_details (Some customer_C) None =
     Inr [(''client_street'', PStr ''Prosta 1''),
          (''client_city'', PStr ''Warszawa''),
          (''client_post_code'', PStr ''00-001''),
          (''client_country'', PStr ''PL''),
          (''client_first_name'', PStr ''Jan''),
          (''client_last_name'', PStr ''Kowalski''),
          (''client_business_activity_kind'', PStr ''private_person'')]"
  by (simp add: customer_C_def client_eval dict_eval)

lemma example_line_items:
  "\<not> is_line_item item_other" "is_line_item item_B" "is_line_item item_credit"
  by (simp_all add: is_line_item_def item_other_def item_B_def item_credit_def)

lemma services_loop_invoice_B:
  "services_loop [item_other, item_B, item_credit] [] =
     Inr [[(''name'', PStr ''Plan''), (''quantity'', PInt 2),
           (''net_price'', PInt 4000), (''tax_price'', PInt 800),
           (''gross_price'', PInt 4800), (''unit_net_price'', PInt 2000),
           (''flat_rate_tax_symbol'', PStr ''12'')],
          [(''name'', PStr ''N/A''), (''quantity'', PInt 2),
           (''unit'', PStr ''szt.''), (''net_price'', PInt (- 5)),
           (''tax_price'', PInt 0), (''gross_price'', PInt (- 5)),
           (''unit_net_price'', PInt (- 2)),
           (''flat_rate_tax_symbol'', PStr ''12''),
           (''tax_symbol'', PStr ''zw'')]]"
  using example_line_items
  by (simp add: make_service_item_B make_service_item_credit is_line_item_def)

lemma line_items_invoice_B: "line_items invoice_B = Some [item_other, item_B, item_credit]"
  by (simp add: invoice_B_def line_items_def)

lemma invoice_B_parts:
  "paid_at_of invoice_B = Inr (Some 1709251199)"
  "extract_nip invoice_B = Inr None"
  "get (customer invoice_B) = Some customer_C"
  "get_default (total invoice_B) 0 = Some 5000"
  by (simp_all add: invoice_B_def paid_at_of_def extract_nip_def)

lemma paid_date_invoice_B: "timestamp_to_infakt_date (Some 1709251199) = Some ''2024-02-29''"
  by (simp add: date_eval)

lemma upper_pln: "upper ''pln'' = ''PLN''"
  by (simp add: upper_def upper_char_def)

lemma transform_invoice_B: "transform_stripe_to_infakt invoice_B = Inr (Some payload_B)"
  apply (simp add: transform_stripe_to_infakt_def line_items_invoice_B services_loop_invoice_B
      invoice_B_parts client_details_customer_C paid_date_invoice_B
      del: services_loop.simps)
  apply (simp add: currency_of_def invoice_B_def payload_fields_def dict_eval date_eval
      upper_pln map_stripe_payment_method_def payload_B_def)
  done

lemma invoice_B_transforms:
  "\<exists>payload. transform_stripe_to_infakt invoice_B = Inr (Some payload)"
  using transform_invoice_B by blast

section \<open>Claims\<close>

text \<open>
  C1. Every service that \<^verbatim>\<open>transform_stripe_to_infakt\<close> produces from a line item
  has \<open>gross_price = net_price + tax_price\<close>: the services of a returned payload are
  those of the entries with object \<^verbatim>\<open>line_item\<close>, in order, and in each of them
  \<open>tax_price\<close> is the sum of the item's applied tax amounts (0 when it has none),
  \<open>net_price\<close> is the item's amount, and \<open>gross_price\<close> is the sum of the two, computed
  from these amounts. An item without an amount gives a service without \<open>net_price\<close>
  whose \<open>gross_price\<close> is its \<open>tax_price\<close>.
\<close>

theorem service_gross_is_net_plus_tax:
  assumes "transform_stripe_to_infakt si = Inr (Some payload)"
  shows "\<exists>items services. line_items si = Some items
     \<and> map_of payload ''services'' = Some (PList (map PDict services))
     \<and> list_all2 (\<lambda>item s.
          map_of s ''tax_price'' = Some (PInt (applied_tax_sum item))
          \<and> (case amount item of
               Val a \<Rightarrow> map_of s ''net_price'' = Some (PInt a)
                 \<and> map_of s ''gross_price'' = Some (PInt (a + applied_tax_sum item))
             | _ \<Rightarrow> map_of s ''net_price'' = None
                 \<and> map_of s ''gross_price'' = Some (PInt (applied_tax_sum item))))
        (filter is_line_item items) services"
proof -
  from transform_services_made [OF assms] obtain items services where
    a: "line_items si = Some items"
    "map_of payload ''services'' = Some (PList (map PDict services))"
    and b: "list_all2 (\<lambda>item s. make_service item = Inr s) (filter is_line_item items) services"
    by blast
  from b have "list_all2 (\<lambda>item s.
          map_of s ''tax_price'' = Some (PInt (applied_tax_sum item))
          \<and> (case amount item of
               Val a \<Rightarrow> map_of s ''net_price'' = Some (PInt a)
                 \<and> map_of s ''gross_price'' = Some (PInt (a + applied_tax_sum item))
             | _ \<Rightarrow> map_of s ''net_price'' = None
                 \<and> map_of s ''gross_price'' = Some (PInt (applied_tax_sum item))))
        (filter is_line_item items) services"
    by (rule list_all2_mono) (rule service_gross)
  with a show ?thesis by blast
qed

theorem service_gross_is_net_plus_tax_witness:
  "\<exists>payload. transform_stripe_to_infakt invoice_B = Inr (Some payload)
     \<and> (\<exists>items services. line_items invoice_B = Some items
     \<and> map_of payload ''services'' = Some (PList (map PDict services))
     \<and> list_all2 (\<lambda>item s.
          map_of s ''tax_price'' = Some (PInt (applied_tax_sum item))
          \<and> (case amount item of
               Val a \<Rightarrow> map_of s ''net_price'' = Some (PInt a)
                 \<and> map_of s ''gross_price'' = Some (PInt (a + applied_tax_sum item))
             | _ \<Rightarrow> map_of s ''net_price'' = None
                 \<and> map_of s ''gross_price'' = Some (PInt (applied_tax_sum item))))
        (filter is_line_item items) services)"
proof -
  from invoice_B_transforms obtain payload where
    h: "transform_stripe_to_infakt invoice_B = Inr (Some payload)" by blast
  from service_gross_is_net_plus_tax [OF h] h show ?thesis by blast
qed

text \<open>
  C10. \<^verbatim>\<open>map_stripe_tax_rate_to_infakt_symbol\<close> returns \<^verbatim>\<open>"zw"\<close> for a missing
  percentage and \<^verbatim>\<open>None\<close> for every percentage. So in every service of a returned
  payload the field \<open>tax_symbol\<close> is there exactly when the first entry of the line
  item's \<^verbatim>\<open>tax_rates\<close> has no percentage (the key is missing or its value is \<^verbatim>\<open>None\<close>,
  or the item has no first tax rate at all), and then it is \<^verbatim>\<open>"zw"\<close>; when the first
  tax rate has a percentage, the service has no \<open>tax_symbol\<close>.
\<close>

theorem tax_symbol_only_without_percentage:
  "map_stripe_tax_rate_to_infakt_symbol None = Some ''zw''
   \<and> (\<forall>p. map_stripe_tax_rate_to_infakt_symbol (Some p) = None)
   \<and> (\<forall>si payload. transform_stripe_to_infakt si = Inr (Some payload) \<longrightarrow>
        (\<exists>items services. line_items si = Some items
          \<and> map_of payload ''services'' = Some (PList (map PDict services))
          \<and> list_all2 (\<lambda>item s. map_of s ''tax_symbol'' =
                 (case tax_rates item of
                    Val (r # rs) \<Rightarrow>
                      (case percentage r of
                         Val p \<Rightarrow> None
                       | _ \<Rightarrow> Some (PStr ''zw''))
                  | _ \<Rightarrow> Some (PStr ''zw'')))
               (filter is_line_item items) services))"
proof (intro conjI allI impI)
  show "map_stripe_tax_rate_to_infakt_symbol None = Some ''zw''"
    by (simp add: map_stripe_tax_rate_to_infakt_symbol_def)
next
  fix p
  show "map_stripe_tax_rate_to_infakt_symbol (Some p) = None"
    by (simp add: map_stripe_tax_rate_to_infakt_symbol_def)
next
  fix si payload
  assume h: "transform_stripe_to_infakt si = Inr (Some payload)"
  from transform_services_made [OF h] obtain items services where
    a: "line_items si = Some items"
    "map_of payload ''services'' = Some (PList (map PDict services))"
    and b: "list_all2 (\<lambda>item s. make_service item = Inr s) (filter is_line_item items) services"
    by blast
  from b have "list_all2 (\<lambda>item s. map_of s ''tax_symbol'' =
                 (case tax_rates item of
                    Val (r # rs) \<Rightarrow>
                      (case percentage r of
                         Val p \<Rightarrow> None
                       | _ \<Rightarrow> Some (PStr ''zw''))
                  | _ \<Rightarrow> Some (PStr ''zw'')))
               (filter is_line_item items) services"
    by (rule list_all2_mono) (simp add: service_tax_symbol first_rate_percentage)
  with a show "\<exists>items services. line_items si = Some items
          \<and> map_of payload ''services'' = Some (PList (map PDict services))
          \<and> list_all2 (\<lambda>item s. map_of s ''tax_symbol'' =
                 (case tax_rates item of
                    Val (r # rs) \<Rightarrow>
                      (case percentage r of
                         Val p \<Rightarrow> None
                       | _ \<Rightarrow> Some (PStr ''zw''))
                  | _ \<Rightarrow> Some (PStr ''zw'')))
               (filter is_line_item items) services"
    by blast
qed

theorem tax_symbol_only_without_percentage_witness:
  "transform_stripe_to_infakt invoice_B = Inr (Some payload_B)
   \<and> line_items invoice_B = Some [item_other, item_B, item_credit]
   \<and> filter is_line_item [item_other, item_B, item_credit] = [item_B, item_credit]
   \<and> tax_rates item_B = Val [\<lparr>percentage = Val 20\<rparr>]
   \<and> tax_rates item_credit = Absent
   \<and> (\<exists>service_B service_credit.
         map_of payload_B ''services'' = Some (PList [PDict service_B, PDict service_credit])
         \<and> map_of service_B ''tax_symbol'' = None
         \<and> map_of service_credit ''tax_symbol'' = Some (PStr ''zw''))
   \<and> map_stripe_tax_rate_to_infakt_symbol None = Some ''zw''
   \<and> map_stripe_tax_rate_to_infakt_symbol (Some 20) = None"
proof -
  note c10 = tax_symbol_only_without_percentage
  from c10 have m: "map_stripe_tax_rate_to_infakt_symbol None = Some ''zw''"
    "map_stripe_tax_rate_to_infakt_symbol (Some 20) = None"
    by blast+
  from c10 transform_invoice_B obtain items services where
    a: "line_items invoice_B = Some items"
    and b: "map_of payload_B ''services'' = Some (PList (map PDict services))"
    and c: "list_all2 (\<lambda>item s. map_of s ''tax_symbol'' =
                 (case tax_rates item of
                    Val (r # rs) \<Rightarrow>
                      (case percentage r of
                         Val p \<Rightarrow> None
                       | _ \<Rightarrow> Some (PStr ''zw''))
                  | _ \<Rightarrow> Some (PStr ''zw'')))
               (filter is_line_item items) services"
    by blast
  from a line_items_invoice_B have items: "items = [item_other, item_B, item_credit]"
    by simp
  have f: "filter is_line_item [item_other, item_B, item_credit] = [item_B, item_credit]"
    using example_line_items by simp
  have tB: "tax_rates item_B = Val [\<lparr>percentage = Val 20\<rparr>]"
    and tC: "tax_rates item_credit = Absent"
    by (simp_all add: item_B_def item_credit_def)
  from c items f obtain service_B service_credit where
    s: "services = [service_B, service_credit]"
    and sB: "map_of service_B ''tax_symbol'' = None"
    and sC: "map_of service_credit ''tax_symbol'' = Some (PStr ''zw'')"
    by (auto simp: list_all2_Cons1 tB tC)
  from b s have "map_of payload_B ''services'' =
      Some (PList [PDict service_B, PDict service_credit])"
    by simp
  with sB sC transform_invoice_B line_items_invoice_B f tB tC m show ?thesis by blast
qed

text \<open>
  C9. The services of a returned payload are made, in order, from exactly the entries of
  the lines list whose object is \<^verbatim>\<open>line_item\<close>. So an invoice whose lines list is not
  empty and holds no such entry is skipped: the result is \<^verbatim>\<open>None\<close> (whatever its
  total is).
\<close>

theorem services_come_from_line_items:
  "(transform_stripe_to_infakt si = Inr (Some payload) \<longrightarrow>
      (\<exists>items services. line_items si = Some items
        \<and> map_of payload ''services'' = Some (PList (map PDict services))
        \<and> list_all2 (\<lambda>item s. make_service item = Inr s)
             (filter (\<lambda>item. get (li_object item) = Some ''line_item'') items) services))
   \<and> (lines si' = Val l \<and> data l = Val entries \<and> entries \<noteq> []
        \<and> (\<forall>item \<in> set entries. get (li_object item) \<noteq> Some ''line_item'')
      \<longrightarrow> transform_stripe_to_infakt si' = Inr None)"
proof (intro conjI impI)
  assume h: "transform_stripe_to_infakt si = Inr (Some payload)"
  have eq: "filter (\<lambda>item. get (li_object item) = Some ''line_item'') = filter is_line_item"
    by (simp add: is_line_item_def [abs_def])
  from transform_services_made [OF h]
  show "\<exists>items services. line_items si = Some items
        \<and> map_of payload ''services'' = Some (PList (map PDict services))
        \<and> list_all2 (\<lambda>item s. make_service item = Inr s)
             (filter (\<lambda>item. get (li_object item) = Some ''line_item'') items) services"
    unfolding eq .
next
  assume a: "lines si' = Val l \<and> data l = Val entries \<and> entries \<noteq> []
        \<and> (\<forall>item \<in> set entries. get (li_object item) \<noteq> Some ''line_item'')"
  then have li: "line_items si' = Some entries"
    by (cases entries) (simp_all add: line_items_def)
  from a have "\<forall>item \<in> set entries. \<not> is_line_item item"
    by (simp add: is_line_item_def)
  then have "services_loop entries [] = Inr []" by (rule services_loop_none)
  then show "transform_stripe_to_infakt si' = Inr None"
    by (simp add: transform_stripe_to_infakt_def li)
qed

theorem services_come_from_line_items_witness:
  "(\<exists>payload. transform_stripe_to_infakt invoice_B = Inr (Some payload)
      \<and> (\<exists>items services. line_items invoice_B = Some items
        \<and> map_of payload ''services'' = Some (PList (map PDict services))
        \<and> list_all2 (\<lambda>item s. make_service item = Inr s)
             (filter (\<lambda>item. get (li_object item) = Some ''line_item'') items) services))
   \<and> lines invoice_no_line_item = Val \<lparr>data = Val [item_other]\<rparr>
   \<and> get (li_object item_other) = Some ''invoiceitem''
   \<and> total invoice_no_line_item = Val 5000
   \<and> transform_stripe_to_infakt invoice_no_line_item = Inr None"
proof -
  from invoice_B_transforms obtain payload where
    h: "transform_stripe_to_infakt invoice_B = Inr (Some payload)" by blast
  have l: "lines invoice_no_line_item = Val \<lparr>data = Val [item_other]\<rparr>"
    and t: "total invoice_no_line_item = Val 5000"
    by (simp_all add: invoice_no_line_item_def invoice_B_def)
  have o: "get (li_object item_other) = Some ''invoiceitem''"
    by (simp add: item_other_def)
  have "transform_stripe_to_infakt invoice_no_line_item = Inr None"
    using services_come_from_line_items
      [of invoice_B payload invoice_no_line_item "\<lparr>data = Val [item_other]\<rparr>" "[item_other]"]
      l o by simp
  with services_come_from_line_items [of invoice_B payload] h l o t
  show ?thesis by blast
qed

subsection \<open>The tax identifier\<close>

text \<open>What the loop over the tax identifiers computes: the value of the first identifier
  of type \<^verbatim>\<open>eu_vat\<close> with a true value when there is one, and otherwise the last true
  value of the list.\<close>

lemma nip_loop_without_eu_vat:
  assumes "\<forall>t \<in> set ids. get (ti_type t) \<noteq> Some ''eu_vat''"
  shows "nip_loop ids nip =
     (case filter (\<lambda>t. str_truthy (get (ti_value t))) ids of
        [] \<Rightarrow> nip
      | t # ts \<Rightarrow> get (ti_value (last (t # ts))))"
  using assms
proof (induction ids arbitrary: nip)
  case Nil
  then show ?case by simp
next
  case (Cons t ids)
  then show ?case
    by (auto simp: Let_def split: list.splits)
qed

lemma nip_loop_eu_vat_first:
  assumes "filter (\<lambda>t. str_truthy (get (ti_value t)) \<and> get (ti_type t) = Some ''eu_vat'') ids
     = t # ts"
  shows "nip_loop ids nip = get (ti_value t)"
  using assms
proof (induction ids arbitrary: nip)
  case Nil
  then show ?case by simp
next
  case (Cons x ids)
  then show ?case
    by (auto simp: Let_def split: if_splits)
qed

lemma scenario_E:
  "nip_loop [\<lparr>ti_type = Val ''us_ein'', ti_value = Val ''1''\<rparr>,
             \<lparr>ti_type = Val ''eu_vat'', ti_value = Val ''2''\<rparr>] None = Some ''2''"
  by (simp add: str_truthy_def)

lemma client_details_tax_code_2:
  "get_client_details (Some customer_C) (Some ''2'') =
     Inr [(''client_street'', PStr ''Prosta 1''),
          (''client_city'', PStr ''Warszawa''),
          (''client_post_code'', PStr ''00-001''),
          (''client_country'', PStr ''PL''),
          (''client_tax_code'', PStr ''2''),
          (''client_company_name'', PStr ''Jan Kowalski''),
          (''client_business_activity_kind'', PStr ''other_business'')]"
  by (simp add: customer_C_def client_eval dict_eval)

lemma invoice_two_tax_ids_parts:
  "line_items invoice_two_tax_ids = Some [item_other, item_B, item_credit]"
  "paid_at_of invoice_two_tax_ids = Inr (Some 1709251199)"
  "extract_nip invoice_two_tax_ids = Inr (Some ''2'')"
  "get (customer invoice_two_tax_ids) = Some customer_C"
  "get_default (total invoice_two_tax_ids) 0 = Some 5000"
  by (simp_all add: invoice_two_tax_ids_def invoice_B_def paid_at_of_def extract_nip_def
      line_items_def tax_ids_two_def str_truthy_def)

text \<open>
  C2 (a defect of the code). With no identifier of type \<^verbatim>\<open>eu_vat\<close> the loop keeps
  the last true value, not the first: for the identifiers \<^verbatim>\<open>us_ein\<close> "1" and
  \<^verbatim>\<open>gb_vat\<close> "2", in this order, the extracted identifier is "2", and the payload
  carries it as \<open>client_tax_code\<close>. The comment above the loop reads "otherwise take
  the first value found".
\<close>

theorem nip_without_eu_vat_is_last_value:
  "extract_nip invoice_two_tax_ids = Inr (Some ''2'')
   \<and> transform_stripe_to_infakt invoice_two_tax_ids =
       Inr (Some (take 20 payload_B @
         [(''client_tax_code'', PStr ''2''),
          (''client_company_name'', PStr ''Jan Kowalski''),
          (''client_business_activity_kind'', PStr ''other_business'')]))"
  apply (simp add: transform_stripe_to_infakt_def invoice_two_tax_ids_parts
      services_loop_invoice_B client_details_tax_code_2 paid_date_invoice_B
      del: services_loop.simps)
  apply (simp add: currency_of_def invoice_two_tax_ids_def invoice_B_def payload_fields_def
      dict_eval date_eval upper_pln map_stripe_payment_method_def payload_B_def)
  done

text \<open>
  C4 (a defect of the code). For a customer whose address is \<^verbatim>\<open>None\<close>, as Stripe
  sends it for a customer without an address, \<^verbatim>\<open>get_client_details\<close> raises
  \<^verbatim>\<open>AttributeError\<close>: the default of \<^verbatim>\<open>customer_data.get("address", {})\<close> stands in
  for a missing key only.
\<close>

theorem null_address_raises:
  "get_client_details (Some customer_null_address) None = Inl AttributeError"
  by (simp add: customer_null_address_def customer_C_def client_eval)

text \<open>When \<^verbatim>\<open>get_client_details\<close> returns, the company name never comes with a first
  or last name.\<close>

lemma client_details_never_mixed:
  assumes "get_client_details c t = Inr d"
  shows "map_of d ''client_company_name'' = None
     \<or> (map_of d ''client_first_name'' = None \<and> map_of d ''client_last_name'' = None)"
proof (cases c)
  case None
  then show ?thesis using assms by (simp add: get_client_details_def)
next
  case (Some cu)
  show ?thesis
  proof (cases "customer_empty cu")
    case True
    then show ?thesis using assms Some by (simp add: get_client_details_def)
  next
    case False
    then obtain s ci p co where d: "d = strip_none (classify
        [(''client_street'', s), (''client_city'', ci), (''client_post_code'', p),
         (''client_country'', co)] (get (c_name cu)) t)"
      using assms Some
      by (auto simp: get_client_details_def Let_def split: sum.splits)
    have dist: "distinct (map fst (classify
        [(''client_street'', s), (''client_city'', ci), (''client_post_code'', p),
         (''client_country'', co)] (get (c_name cu)) t))"
      by (simp add: classify_def dict_set_def Let_def split: option.splits)
    show ?thesis
      unfolding d map_of_strip_none [OF dist]
      by (simp add: classify_def dict_set_def Let_def split: option.splits)
  qed
qed

text \<open>
  C3, as stated, fails: a name with more than one space is split at its first space
  and gives the fields of a private person, not of a company.
\<close>

theorem three_word_name_is_private_person:
  "get_client_details (Some customer_three_words) None =
     Inr [(''client_street'', PStr ''Prosta 1''),
          (''client_city'', PStr ''Warszawa''),
          (''client_post_code'', PStr ''00-001''),
          (''client_country'', PStr ''PL''),
          (''client_first_name'', PStr ''Jan''),
          (''client_last_name'', PStr ''Maria Kowalski''),
          (''client_business_activity_kind'', PStr ''private_person'')]"
  by (simp add: customer_three_words_def customer_C_def client_eval dict_eval)

lemma split_at_first_space:
  assumes "CHR '' '' \<in> set n"
  shows "n = takeWhile (\<lambda>c. c \<noteq> CHR '' '') n @ CHR '' '' # tl (dropWhile (\<lambda>c. c \<noteq> CHR '' '') n)"
    and "CHR '' '' \<notin> set (takeWhile (\<lambda>c. c \<noteq> CHR '' '') n)"
proof -
  let ?P = "\<lambda>c. c \<noteq> CHR '' ''"
  from assms have ne: "dropWhile ?P n \<noteq> []" by (auto simp: dropWhile_eq_Nil_conv)
  then have "hd (dropWhile ?P n) = CHR '' ''"
    using hd_dropWhile [of ?P n] by simp
  with ne have "dropWhile ?P n = CHR '' '' # tl (dropWhile ?P n)"
    by (cases "dropWhile ?P n") simp_all
  then show "n = takeWhile ?P n @ CHR '' '' # tl (dropWhile ?P n)"
    using takeWhile_dropWhile_id [of ?P n] by simp
  show "CHR '' '' \<notin> set (takeWhile ?P n)"
    by (auto dest: set_takeWhileD)
qed

text \<open>
  C3, amended. For a customer with no tax code, a name that is not empty and an address
  that is missing or a dictionary, \<^verbatim>\<open>get_client_details\<close> returns the fields of a
  private person exactly when the name holds a space: the first name is the text before
  the first space, the last name all the text after it. A name without a space gives
  the company fields with the whole name.
\<close>

theorem private_person_iff_name_has_space:
  assumes "c_name c = Val n" and "n \<noteq> []" and "\<not> str_truthy tax_code"
    and "c_address c \<noteq> Null"
  shows "\<exists>d. get_client_details (Some c) tax_code = Inr d
     \<and> map_of d ''client_tax_code'' = None
     \<and> (if CHR '' '' \<in> set n
        then (\<exists>first last. n = first @ CHR '' '' # last \<and> CHR '' '' \<notin> set first
               \<and> map_of d ''client_first_name'' = Some (PStr first)
               \<and> map_of d ''client_last_name'' = Some (PStr last))
             \<and> map_of d ''client_business_activity_kind'' = Some (PStr ''private_person'')
             \<and> map_of d ''client_company_name'' = None
        else map_of d ''client_company_name'' = Some (PStr n)
             \<and> map_of d ''client_business_activity_kind'' = Some (PStr ''other_business'')
             \<and> map_of d ''client_first_name'' = None
             \<and> map_of d ''client_last_name'' = None)"
proof -
  have ne: "\<not> customer_empty c"
    using assms(1) by (simp add: customer_empty_def)
  obtain s ci p co where ag: "address_get c line1 = Inr s" "address_get c city = Inr ci"
    "address_get c postal_code = Inr p" "address_get c country = Inr co"
    using assms(4) by (cases "c_address c") (simp_all add: address_get_def)
  define details where "details = [(''client_street'', of_str s), (''client_city'', of_str ci),
     (''client_post_code'', of_str p), (''client_country'', of_str co)]"
  have res: "get_client_details (Some c) tax_code =
     Inr (strip_none (classify details (Some n) tax_code))"
    using ne ag assms(1) by (simp add: get_client_details_def details_def)
  show ?thesis
  proof (cases "CHR '' '' \<in> set n")
    case True
    let ?first = "takeWhile (\<lambda>c. c \<noteq> CHR '' '') n"
    let ?last = "tl (dropWhile (\<lambda>c. c \<noteq> CHR '' '') n)"
    have cl: "classify details (Some n) tax_code = details @
       [(''client_first_name'', PStr ?first), (''client_last_name'', PStr ?last),
        (''client_business_activity_kind'', PStr ''private_person'')]"
      using True assms(2,3) by (simp add: classify_def dict_set_def details_def)
    have dist: "distinct (map fst (classify details (Some n) tax_code))"
      unfolding cl by (simp add: details_def)
    have "map_of (strip_none (classify details (Some n) tax_code)) ''client_first_name''
        = Some (PStr ?first)"
      "map_of (strip_none (classify details (Some n) tax_code)) ''client_last_name''
        = Some (PStr ?last)"
      "map_of (strip_none (classify details (Some n) tax_code)) ''client_business_activity_kind''
        = Some (PStr ''private_person'')"
      "map_of (strip_none (classify details (Some n) tax_code)) ''client_company_name'' = None"
      "map_of (strip_none (classify details (Some n) tax_code)) ''client_tax_code'' = None"
      unfolding map_of_strip_none [OF dist] unfolding cl by (simp_all add: details_def)
    with split_at_first_space [OF True] True res show ?thesis by auto
  next
    case False
    have cl: "classify details (Some n) tax_code = details @
       [(''client_company_name'', PStr n),
        (''client_business_activity_kind'', PStr ''other_business'')]"
      using False assms(2,3) by (simp add: classify_def dict_set_def details_def)
    have dist: "distinct (map fst (classify details (Some n) tax_code))"
      unfolding cl by (simp add: details_def)
    have "map_of (strip_none (classify details (Some n) tax_code)) ''client_first_name'' = None"
      "map_of (strip_none (classify details (Some n) tax_code)) ''client_last_name'' = None"
      "map_of (strip_none (classify details (Some n) tax_code)) ''client_business_activity_kind''
        = Some (PStr ''other_business'')"
      "map_of (strip_none (classify details (Some n) tax_code)) ''client_company_name''
        = Some (PStr n)"
      "map_of (strip_none (classify details (Some n) tax_code)) ''client_tax_code'' = None"
      unfolding map_of_strip_none [OF dist] unfolding cl by (simp_all add: details_def)
    with False res show ?thesis by auto
  qed
qed

theorem private_person_iff_name_has_space_witness:
  "c_name customer_C = Val ''Jan Kowalski'' \<and> \<not> str_truthy None
   \<and> c_address customer_C \<noteq> Null
   \<and> (\<exists>d. get_client_details (Some customer_C) None = Inr d
     \<and> map_of d ''client_tax_code'' = None
     \<and> (\<exists>first last. ''Jan Kowalski'' = first @ CHR '' '' # last \<and> CHR '' '' \<notin> set first
               \<and> map_of d ''client_first_name'' = Some (PStr first)
               \<and> map_of d ''client_last_name'' = Some (PStr last))
     \<and> map_of d ''client_business_activity_kind'' = Some (PStr ''private_person'')
     \<and> map_of d ''client_company_name'' = None)"
proof -
  have a: "c_name customer_C = Val ''Jan Kowalski''" by (simp add: customer_C_def)
  have b: "''Jan Kowalski'' \<noteq> []" by simp
  have c: "\<not> str_truthy None" by (simp add: str_truthy_def)
  have d: "c_address customer_C \<noteq> Null" by (simp add: customer_C_def)
  from private_person_iff_name_has_space [OF a b c d] a c d show ?thesis by simp
qed

section \<open>The clients\<close>

lemma filter_loop_acc:
  assumes "\<forall>i \<in> set invs. status_transitions i \<noteq> Null"
  shows "filter_loop invs s e acc = Inr (acc @ filter (paid_in_range s e) invs)"
  using assms
proof (induction invs arbitrary: acc)
  case Nil
  then show ?case by simp
next
  case (Cons i invs)
  then have ih: "\<And>acc. filter_loop invs s e acc = Inr (acc @ filter (paid_in_range s e) invs)"
    by simp
  from Cons.prems have nn: "status_transitions i \<noteq> Null" by simp
  show ?case
  proof (cases "status_transitions i")
    case Absent
    then have "paid_at_of i = Inr None" "\<not> paid_in_range s e i"
      by (simp_all add: paid_at_of_def paid_in_range_def)
    then show ?thesis by (simp add: ih)
  next
    case Null
    with nn show ?thesis by simp
  next
    case (Val st)
    show ?thesis
    proof (cases "paid_at st")
      case (Val t)
      with \<open>status_transitions i = Val st\<close>
      have "paid_at_of i = Inr (Some t)"
        "paid_in_range s e i = (t \<noteq> 0 \<and> s \<le> t \<and> t \<le> e)"
        by (simp_all add: paid_at_of_def paid_in_range_def)
      then show ?thesis by (simp add: ih)
    next
      case Absent
      with \<open>status_transitions i = Val st\<close>
      have "paid_at_of i = Inr None" "\<not> paid_in_range s e i"
        by (simp_all add: paid_at_of_def paid_in_range_def)
      then show ?thesis by (simp add: ih)
    next
      case Null
      with \<open>status_transitions i = Val st\<close>
      have "paid_at_of i = Inr None" "\<not> paid_in_range s e i"
        by (simp_all add: paid_at_of_def paid_in_range_def)
      then show ?thesis by (simp add: ih)
    qed
  qed
qed

lemma get_paid_invoices_filters:
  assumes "fetch_loop replies [] = Some (Inr fetched)"
    and "\<forall>i \<in> set fetched. status_transitions i \<noteq> Null"
  shows "get_paid_invoices replies start_ts end_ts =
     Some (Inr (filter (paid_in_range start_ts end_ts) fetched))"
  using filter_loop_acc [OF assms(2), of start_ts end_ts "[]"] assms(1)
  by (simp add: get_paid_invoices_def)

text \<open>A rate limit error on the second page: the call is repeated and the pages are
  joined with nothing lost and nothing twice.\<close>

lemma scenario_F:
  assumes "inv_id (last (p # page1)) \<noteq> Absent"
  shows "fetch_loop [Page (p # page1) True, RateLimited, Page (q # page2) False] [] =
     Some (Inr ((p # page1) @ (q # page2)))"
  using assms by (cases "inv_id (last (p # page1))") simp_all

text \<open>The next page is asked for after the identifier of the last invoice of the page:
  when that invoice has none, the fetch raises.\<close>

lemma fetch_without_id_raises:
  "get_paid_invoices [Page [invoice_B\<lparr>inv_id := Absent\<rparr>] True, Page [invoice_B] False]
     start_ts end_ts = Some (Inl AttributeError)"
  by (simp add: get_paid_invoices_def)

text \<open>Two pages with a rate limit error between them, filtered for February 2024.\<close>

lemma get_paid_invoices_example:
  "get_paid_invoices [Page [invoice_B] True, RateLimited, Page [invoice_paid_at_epoch] False]
        1706745600 1709251199 = Some (Inr [invoice_B])"
proof -
  have f: "fetch_loop [Page [invoice_B] True, RateLimited, Page [invoice_paid_at_epoch] False] []
     = Some (Inr [invoice_B, invoice_paid_at_epoch])"
    by (simp add: invoice_B_def)
  have n: "\<forall>i \<in> set [invoice_B, invoice_paid_at_epoch]. status_transitions i \<noteq> Null"
    by (simp add: invoice_paid_at_epoch_def invoice_B_def)
  have k: "filter (paid_in_range 1706745600 1709251199) [invoice_B, invoice_paid_at_epoch]
     = [invoice_B]"
    by (simp add: paid_in_range_def invoice_paid_at_epoch_def invoice_B_def)
  from get_paid_invoices_filters [OF f n, of 1706745600 1709251199] k
  show ?thesis by simp
qed

text \<open>
  Where the code and the range filter agree. When the fetch loop ends with the invoices
  \<open>fetched\<close>, none of them with \<^verbatim>\<open>status_transitions\<close> set to \<^verbatim>\<open>None\<close>, and second 0
  does not lie in the range, \<^verbatim>\<open>get_paid_invoices\<close> returns exactly the invoices whose
  paid timestamp is not \<^verbatim>\<open>None\<close> and lies in the range, in the order they were fetched.
\<close>

lemma get_paid_invoices_off_epoch:
  assumes "fetch_loop replies [] = Some (Inr fetched)"
    and "\<forall>i \<in> set fetched. status_transitions i \<noteq> Null"
    and "0 < start_ts \<or> end_ts < 0"
  shows "get_paid_invoices replies start_ts end_ts =
     Some (Inr (filter (paid_at_within start_ts end_ts) fetched))"
proof -
  from assms(3) have "paid_in_range start_ts end_ts = paid_at_within start_ts end_ts"
    by (auto simp: fun_eq_iff paid_in_range_def paid_at_within_def split: field.splits)
  with get_paid_invoices_filters [OF assms(1,2), of start_ts end_ts] show ?thesis
    by simp
qed

text \<open>The same for every range, when no fetched invoice was paid at second 0.\<close>

lemma get_paid_invoices_paid_after_epoch:
  assumes "fetch_loop replies [] = Some (Inr fetched)"
    and "\<forall>i \<in> set fetched. status_transitions i \<noteq> Null"
    and "\<forall>i \<in> set fetched. paid_at_of i \<noteq> Inr (Some 0)"
  shows "get_paid_invoices replies start_ts end_ts =
     Some (Inr (filter (paid_at_within start_ts end_ts) fetched))"
proof -
  have "filter (paid_in_range start_ts end_ts) fetched =
      filter (paid_at_within start_ts end_ts) fetched"
  proof (rule filter_cong [OF refl])
    fix i
    assume "i \<in> set fetched"
    with assms(3) have "paid_at_of i \<noteq> Inr (Some 0)" by simp
    then show "paid_in_range start_ts end_ts i = paid_at_within start_ts end_ts i"
      by (auto simp: paid_in_range_def paid_at_within_def paid_at_of_def split: field.splits)
  qed
  with get_paid_invoices_filters [OF assms(1,2), of start_ts end_ts] show ?thesis
    by simp
qed


text \<open>An exception of the parser other than \<^verbatim>\<open>JSONDecodeError\<close>, raised on the body of
  an error response, is raised inside the handler and leaves the function.\<close>

lemma parser_exception_leaves_the_function:
  assumes "answer = RequestFailed (Some r) \<or> answer = Responded r \<and> raises_for_status r"
    and "body_json r = Parse_raised err"
  shows "returned (create_invoice_async p answer) = Inl err"
  using assms
  by (auto simp: create_invoice_async_def request_exception_handler_def Let_def)

lemma nested_error_body_raises:
  "returned (create_invoice_async [(''number'', PStr ''F-1'')] (Responded response_500_nested))
     = Inl RecursionError"
  by (simp add: create_invoice_async_def request_exception_handler_def response_500_nested_def
      raises_for_status_def)




section \<open>Months\<close>

lemma month_cases:
  "1 \<le> m \<Longrightarrow> m \<le> 12 \<Longrightarrow>
   m = 1 \<or> m = 2 \<or> m = 3 \<or> m = 4 \<or> m = 5 \<or> m = 6 \<or> m = 7 \<or> m = 8 \<or> m = 9
   \<or> m = 10 \<or> m = 11 \<or> m = (12::int)"
  by arith

lemma days_in_month_bounds:
  assumes "1 \<le> m" and "m \<le> 12"
  shows "28 \<le> days_in_month y m \<and> days_in_month y m \<le> 31"
  using month_cases [OF assms]
  by (auto simp: days_in_month_def DAYS_IN_MONTH_def)

lemma days_before_month_step:
  assumes "1 \<le> m" and "m \<le> 11"
  shows "days_before_month y (m + 1) - days_before_month y m = days_in_month y m"
proof -
  from assms have "m = 1 \<or> m = 2 \<or> m = 3 \<or> m = 4 \<or> m = 5 \<or> m = 6 \<or> m = 7 \<or> m = 8
    \<or> m = 9 \<or> m = 10 \<or> m = 11" by arith
  then show ?thesis
    by (auto simp: days_before_month_def days_in_month_def DAYS_IN_MONTH_def
        DAYS_BEFORE_MONTH_def)
qed

lemma days_before_month_bounds:
  assumes "1 \<le> m" and "m \<le> 12"
  shows "0 \<le> days_before_month y m \<and> days_before_month y m \<le> 335"
  using month_cases [OF assms]
  by (auto simp: days_before_month_def DAYS_BEFORE_MONTH_def)

lemma epoch_ordinal: "ymd2ord 1970 1 1 = EPOCH_ORDINAL"
  by (simp add: ymd2ord_def days_before_year_def days_before_month_def DAYS_BEFORE_MONTH_def
      EPOCH_ORDINAL_def)

lemma december: "days_before_month y 12 = 334 + (if is_leap y then 1 else 0)"
  "days_before_month y 1 = 0" "days_in_month y 12 = 31"
  by (simp_all add: days_before_month_def DAYS_BEFORE_MONTH_def days_in_month_def
      DAYS_IN_MONTH_def)

lemma div_pred:
  assumes "0 < (k::int)"
  shows "y div k - (y - 1) div k = (if y mod k = 0 then 1 else 0)"
proof (cases "y mod k = 0")
  case True
  have "y - 1 = k * (y div k - 1) + (k - 1)"
    using True by (simp add: algebra_simps) (metis mult.commute mod_0_imp_dvd dvd_mult_div_cancel)
  then have "(y - 1) div k = y div k - 1"
    using assms by (intro int_div_pos_eq [where r = "k - 1"]) simp_all
  with True show ?thesis by simp
next
  case False
  have "0 \<le> y mod k" "y mod k < k"
    using assms by simp_all
  with False have r: "1 \<le> y mod k" "y mod k < k"
    by simp_all
  have "y - 1 = k * (y div k) + (y mod k - 1)" by simp
  then have "(y - 1) div k = y div k"
    using r by (intro int_div_pos_eq [where r = "y mod k - 1"]) simp_all
  with False show ?thesis by simp
qed

lemma days_before_year_step:
  "days_before_year (y + 1) - days_before_year y = 365 + (if is_leap y then 1 else 0)"
proof -
  have a: "y div 4 - (y - 1) div 4 = (if y mod 4 = 0 then 1 else 0)"
    and b: "y div 100 - (y - 1) div 100 = (if y mod 100 = 0 then 1 else 0)"
    and c: "y div 400 - (y - 1) div 400 = (if y mod 400 = 0 then 1 else 0)"
    by (rule div_pred, simp)+
  have "(100::int) dvd 400" "(4::int) dvd 100" by simp_all
  then have d: "y mod 400 = 0 \<Longrightarrow> y mod 100 = 0" "y mod 100 = 0 \<Longrightarrow> y mod 4 = 0"
    unfolding mod_eq_0_iff_dvd by (blast intro: dvd_trans)+
  have e: "(y div 4 - (y - 1) div 4) - (y div 100 - (y - 1) div 100)
       + (y div 400 - (y - 1) div 400) = (if is_leap y then 1 else 0)"
  proof (cases "y mod 4 = 0")
    case False
    with d have "y mod 100 \<noteq> 0 \<and> y mod 400 \<noteq> 0" by auto
    with False show ?thesis unfolding a b c is_leap_def by simp
  next
    case True
    show ?thesis
    proof (cases "y mod 100 = 0")
      case False
      with d have "y mod 400 \<noteq> 0" by auto
      with True False show ?thesis unfolding a b c is_leap_def by simp
    next
      case h: True
      with True show ?thesis unfolding a b c is_leap_def by simp
    qed
  qed
  have "days_before_year (y + 1) - days_before_year y =
     365 + ((y div 4 - (y - 1) div 4) - (y div 100 - (y - 1) div 100)
       + (y div 400 - (y - 1) div 400))"
    by (simp add: days_before_year_def Let_def algebra_simps)
  with e show ?thesis by simp
qed

lemma days_before_year_mono_nat:
  "days_before_year y \<le> days_before_year (y + int n)"
proof (induction n)
  case 0
  then show ?case by simp
next
  case (Suc n)
  have "days_before_year (y + int n) \<le> days_before_year (y + int n + 1)"
    using days_before_year_step [of "y + int n"] by (simp split: if_splits)
  with Suc have "days_before_year y \<le> days_before_year (y + int n + 1)"
    by linarith
  moreover have "y + int n + 1 = y + int (Suc n)" by simp
  ultimately show ?case by (simp only:)
qed

lemma days_before_year_mono:
  assumes "y \<le> z"
  shows "days_before_year y \<le> days_before_year z"
  using days_before_year_mono_nat [of y "nat (z - y)"] assms by simp

lemma days_before_year_bounds:
  assumes "1 \<le> y" and "y \<le> 9999"
  shows "0 \<le> days_before_year y \<and> days_before_year y \<le> 3651694"
proof -
  have "days_before_year 1 = 0" "days_before_year 9999 = 3651694"
    by (simp_all add: days_before_year_def)
  with days_before_year_mono [OF assms(1)] days_before_year_mono [OF assms(2)]
  show ?thesis by simp
qed

lemma month_length:
  assumes "1 \<le> month" and "month \<le> 12"
  shows "(case following_month year month of (y', m') \<Rightarrow> ymd2ord y' m' 1)
     - ymd2ord year month 1 = days_in_month year month"
proof (cases "month = 12")
  case True
  then show ?thesis
    using days_before_year_step [of year]
    by (simp add: following_month_def ymd2ord_def december)
next
  case False
  with assms have "month \<le> 11" by simp
  from days_before_month_step [OF assms(1) this, of year] False show ?thesis
    by (simp add: following_month_def ymd2ord_def)
qed

lemma ymd2ord_bounds:
  assumes "1 \<le> year" and "year \<le> 9999" and "1 \<le> month" and "month \<le> 12"
  shows "1 \<le> ymd2ord year month 1 \<and> ymd2ord year month 1 \<le> 3652059"
  using days_before_year_bounds [OF assms(1,2)] days_before_month_bounds [OF assms(3,4), of year]
  by (simp add: ymd2ord_def)

lemma datetime_utc_first:
  assumes "1 \<le> year" and "year \<le> 9999" and "1 \<le> month" and "month \<le> 12"
  shows "datetime_utc year month 1 = Inr \<lparr>dt_ordinal = ymd2ord year month 1, dt_second = 0\<rparr>"
  using assms days_in_month_bounds [OF assms(3,4), of year]
  by (simp add: datetime_utc_def MINYEAR_def MAXYEAR_def)

lemma sub_one_second:
  assumes "2 \<le> n" and "n \<le> 3652059"
  shows "sub_seconds \<lparr>dt_ordinal = n, dt_second = 0\<rparr> 1 =
     Inr \<lparr>dt_ordinal = n - 1, dt_second = 86399\<rparr>"
proof -
  have "n * 86400 - 1 = 86400 * (n - 1) + 86399" by simp
  then have "(n * 86400 - 1) div 86400 = n - 1"
    by (intro int_div_pos_eq [where r = 86399]) simp_all
  moreover have "(n * 86400 - 1) mod 86400 = 86399"
    using \<open>n * 86400 - 1 = 86400 * (n - 1) + 86399\<close>
    by (intro int_mod_pos_eq [where q = "n - 1"]) simp_all
  ultimately show ?thesis
    using assms by (simp add: sub_seconds_def Let_def MAXORDINAL_def)
qed

text \<open>The timestamp of 1 January 1970 is 0, and each month starts its number of days
  after the month before.\<close>

lemma month_start_epoch: "month_start 1970 1 = 0"
  by (simp add: month_start_def)

lemma month_start_step:
  assumes "1 \<le> month" and "month \<le> 12"
  shows "(case following_month year month of (y', m') \<Rightarrow> month_start y' m') =
     month_start year month + days_in_month year month * 86400"
proof -
  obtain y' m' where fm: "following_month year month = (y', m')"
    by (cases "following_month year month")
  from month_length [OF assms, of year] fm
  have "ymd2ord y' m' 1 = ymd2ord year month 1 + days_in_month year month" by simp
  then show ?thesis by (simp add: fm month_start_def algebra_simps)
qed

text \<open>
  C6, as stated, fails: \<^verbatim>\<open>datetime\<close> has no year 10000, so for December 9999 the
  start of the following month cannot be built and the function raises.
\<close>

theorem december_9999_raises: "get_month_timestamps 9999 12 = Inl ValueError"
  by (simp add: get_month_timestamps_def datetime_utc_def MINYEAR_def MAXYEAR_def
      days_in_month_def DAYS_IN_MONTH_def ymd2ord_def)

text \<open>
  C6, amended. For every year from 1 to 9999 and every month from 1 to 12, except
  December 9999, \<^verbatim>\<open>get_month_timestamps\<close> returns \<open>(start_ts, end_ts)\<close> where
  \<open>start_ts\<close> is midnight UTC on day 1 of the month, \<open>end_ts\<close> is one second before
  midnight UTC on day 1 of the following month (January of the next year after
  December), and \<open>end_ts - start_ts + 1\<close> is the number of days of the month, 29 for
  February in a leap year, times 86400.
\<close>

theorem month_range:
  assumes "1 \<le> year" and "year \<le> 9999" and "1 \<le> month" and "month \<le> 12"
    and "\<not> (year = 9999 \<and> month = 12)"
  shows "\<exists>start_ts end_ts. get_month_timestamps year month = Inr (start_ts, end_ts)
     \<and> start_ts = month_start year month
     \<and> end_ts + 1 = (case following_month year month of (y', m') \<Rightarrow> month_start y' m')
     \<and> end_ts - start_ts + 1 = days_in_month year month * 86400"
proof -
  obtain y' m' where fm: "following_month year month = (y', m')"
    by (cases "following_month year month")
  have valid': "1 \<le> y'" "y' \<le> 9999" "1 \<le> m'" "m' \<le> 12"
    using fm assms by (auto simp: following_month_def split: if_splits)
  have next_dt: "(if month = 12 then datetime_utc (year + 1) 1 1
       else datetime_utc year (month + 1) 1) = datetime_utc y' m' 1"
    using fm by (auto simp: following_month_def split: if_splits)
  have len: "ymd2ord y' m' 1 - ymd2ord year month 1 = days_in_month year month"
    using month_length [OF assms(3,4), of year] fm by simp
  have "28 \<le> days_in_month year month"
    using days_in_month_bounds [OF assms(3,4), of year] by simp
  with len ymd2ord_bounds [OF assms(1-4)] ymd2ord_bounds [OF valid']
  have rng: "2 \<le> ymd2ord y' m' 1" "ymd2ord y' m' 1 \<le> 3652059" by simp_all
  have res: "get_month_timestamps year month =
     Inr ((ymd2ord year month 1 - EPOCH_ORDINAL) * 86400,
          (ymd2ord y' m' 1 - 1 - EPOCH_ORDINAL) * 86400 + 86399)"
    unfolding get_month_timestamps_def next_dt
    by (simp add: datetime_utc_first [OF assms(1-4)] datetime_utc_first [OF valid']
        sub_one_second [OF rng] timestamp_def)
  let ?s = "(ymd2ord year month 1 - EPOCH_ORDINAL) * 86400"
  let ?e = "(ymd2ord y' m' 1 - 1 - EPOCH_ORDINAL) * 86400 + 86399"
  have 1: "?s = month_start year month"
    by (simp add: month_start_def epoch_ordinal)
  have 2: "?e + 1 = (case following_month year month of (y', m') \<Rightarrow> month_start y' m')"
    by (simp add: fm month_start_def epoch_ordinal algebra_simps)
  have "ymd2ord y' m' 1 = ymd2ord year month 1 + days_in_month year month"
    using len by simp
  then have 3: "?e - ?s + 1 = days_in_month year month * 86400"
    by (simp add: algebra_simps)
  from res 1 2 3 show ?thesis by blast
qed

theorem month_range_witness:
  "get_month_timestamps 2024 2 = Inr (1706745600, 1709251199)
   \<and> month_start 2024 2 = 1706745600 \<and> month_start 2024 3 = 1709251200
   \<and> days_in_month 2024 2 = 29
   \<and> get_month_timestamps 2023 12 = Inr (1701388800, 1704067199)
   \<and> month_start 2024 1 = 1704067200"
proof -
  have a: "month_start 2024 2 = 1706745600" "month_start 2024 3 = 1709251200"
    "month_start 2023 12 = 1701388800" "month_start 2024 1 = 1704067200"
    by (simp_all add: month_start_def ymd2ord_def days_before_year_def days_before_month_def
        DAYS_BEFORE_MONTH_def is_leap_def)
  have b: "days_in_month 2024 2 = 29"
    by (simp add: days_in_month_def is_leap_def)
  have c: "following_month 2024 2 = (2024, 3)" "following_month 2023 12 = (2024, 1)"
    by (simp_all add: following_month_def)
  from month_range [of 2024 2] month_range [of 2023 12] a b c show ?thesis
    by auto
qed

section \<open>True division on integers below \<open>2 ^ 53\<close>\<close>











text \<open>Beyond \<open>2 ^ 53\<close> the division rounds: \<open>2 ^ 53 + 1\<close> divided by 1 gives the
  double \<open>2 ^ 53\<close>.\<close>

lemma large_amount_is_rounded:
  "truediv (2 ^ 53 + 1) 1 = Inr (Double 4503599627370496 1)"
  "int_of_double (Double 4503599627370496 1) = 2 ^ 53"
  by (simp_all add: truediv_eval)







end
